theory Spec2Isabelle
  imports Complex_Main
begin

section \<open>JavaScript numbers\<close>

text \<open>
  The handlers compute prices with JavaScript numbers, which are IEEE 754 binary64 values.
  A finite number is kept as the rational it denotes; the two zeros are identified (they
  are equal under \<^verbatim>\<open>===\<close>, print alike in JSON, and only \<^verbatim>\<open>+\<close> and \<^verbatim>\<open>*\<close> are used here).
\<close>

datatype number = Fin rat | PInf | NInf | NaN

function bitlen :: "int \<Rightarrow> int" where
  "bitlen n = (if n \<le> 0 then 0 else 1 + bitlen (n div 2))"
  by pat_completeness auto
termination
  by (relation "measure nat") auto

declare bitlen.simps [simp del]

function pow2n :: "int \<Rightarrow> rat" where
  "pow2n k = (if k \<le> 0 then 1
              else let h = pow2n (k div 2) in if even k then h * h else 2 * h * h)"
  by pat_completeness auto
termination
  by (relation "measure nat") auto

declare pow2n.simps [simp del]

definition pow2 :: "int \<Rightarrow> rat" where
  "pow2 k = (if 0 \<le> k then pow2n k else 1 / pow2n (- k))"

text \<open>The binary exponent of a positive rational: the floor of its base-2 logarithm.\<close>

definition ilog2 :: "rat \<Rightarrow> int" where
  "ilog2 x = (if 1 \<le> x then bitlen \<lfloor>x\<rfloor> - 1 else - bitlen (\<lceil>1 / x\<rceil> - 1))"

definition round_half_even :: "rat \<Rightarrow> int" where
  "round_half_even x = (let n = \<lfloor>x\<rfloor>; r = x - of_int n
     in if r < 1 / 2 then n else if 1 / 2 < r then n + 1
        else if even n then n else n + 1)"

text \<open>
  Rounding of an exact result to the nearest binary64 value, ties to even: 53 significant
  bits, the unit in the last place never below \<open>2\<^sup>-\<^sup>1\<^sup>0\<^sup>7\<^sup>4\<close> (subnormals), and overflow to
  an infinity once the rounded magnitude reaches \<open>2\<^sup>1\<^sup>0\<^sup>2\<^sup>4\<close>.
\<close>

definition fround :: "rat \<Rightarrow> number" where
  "fround q = (if q = 0 then Fin 0 else
     let a = \<bar>q\<bar>;
         e = max (ilog2 a) (- 1022);
         u = pow2 (e - 52);
         r = of_int (round_half_even (a / u)) * u
     in if pow2 1024 \<le> r then (if 0 < q then PInf else NInf)
        else Fin (if 0 < q then r else - r))"

definition is_neg :: "number \<Rightarrow> bool" where
  "is_neg x = (case x of Fin a \<Rightarrow> a < 0 | NInf \<Rightarrow> True | _ \<Rightarrow> False)"

text \<open>The operators \<^verbatim>\<open>*\<close> and \<^verbatim>\<open>+\<close> on two numbers.\<close>

definition fmul :: "number \<Rightarrow> number \<Rightarrow> number" where
  "fmul x y = (if x = NaN \<or> y = NaN then NaN
     else case (x, y) of
       (Fin a, Fin b) \<Rightarrow> fround (a * b)
     | _ \<Rightarrow> if x = Fin 0 \<or> y = Fin 0 then NaN
            else if is_neg x = is_neg y then PInf else NInf)"

definition fadd :: "number \<Rightarrow> number \<Rightarrow> number" where
  "fadd x y = (if x = NaN \<or> y = NaN then NaN
     else case (x, y) of
       (Fin a, Fin b) \<Rightarrow> fround (a + b)
     | (Fin a, _) \<Rightarrow> y
     | (_, Fin b) \<Rightarrow> x
     | _ \<Rightarrow> if x = y then x else NaN)"

text \<open>
  A value as \<^verbatim>\<open>markups[selectedTier]\<close> can yield it: a number, \<^verbatim>\<open>undefined\<close>, or one of the
  functions and objects every object literal inherits from \<^verbatim>\<open>Object.prototype\<close>.
\<close>

datatype jsval = Num number | Inherited | Undefined

definition truthy :: "jsval \<Rightarrow> bool" where
  "truthy v = (case v of Num n \<Rightarrow> n \<noteq> Fin 0 \<and> n \<noteq> NaN | Inherited \<Rightarrow> True | Undefined \<Rightarrow> False)"

text \<open>\<^verbatim>\<open>ToNumber\<close>: a function or a plain object converts to \<^verbatim>\<open>NaN\<close>, and so does \<^verbatim>\<open>undefined\<close>.\<close>

definition to_number :: "jsval \<Rightarrow> number" where
  "to_number v = (case v of Num n \<Rightarrow> n | _ \<Rightarrow> NaN)"

text \<open>Truthiness of an optional string: \<^verbatim>\<open>null\<close>, \<^verbatim>\<open>undefined\<close> and \<^verbatim>\<open>''\<close> are falsy.\<close>

definition str_truthy :: "string option \<Rightarrow> bool" where
  "str_truthy s = (s \<noteq> None \<and> s \<noteq> Some [])"

text \<open>\<^verbatim>\<open>a || b\<close> on optional strings.\<close>

definition str_or :: "string option \<Rightarrow> string option \<Rightarrow> string option" where
  "str_or a b = (if str_truthy a then a else b)"

text \<open>\<^verbatim>\<open>a || 'literal'\<close>.\<close>

definition str_or_lit :: "string option \<Rightarrow> string \<Rightarrow> string" where
  "str_or_lit a b = (case a of None \<Rightarrow> b | Some s \<Rightarrow> if s = [] then b else s)"

function digits_of :: "nat \<Rightarrow> string" where
  "digits_of n = (if n < 10 then [''0123456789'' ! n]
                  else digits_of (n div 10) @ [''0123456789'' ! (n mod 10)])"
  by pat_completeness auto
termination
  by (relation "measure id") auto

declare digits_of.simps [simp del]

text \<open>An integer inside a template literal.\<close>

definition string_of_int :: "int \<Rightarrow> string" where
  "string_of_int i = (if i < 0 then CHR ''-'' # digits_of (nat (- i)) else digits_of (nat i))"

section \<open>Tables of \<^verbatim>\<open>schema.sql\<close>\<close>

type_synonym timestamp = int
type_synonym numeric = rat

text \<open>
  A table is the list of its rows in storage order. Of the price-book items only the columns
  the handlers below select are kept. A \<^verbatim>\<open>NUMERIC\<close> column holds an exact decimal, which the
  driver hands to JavaScript as a string.
\<close>

record pricebook_item =
  item_id :: int
  item_name :: string
  item_labour_rate :: numeric
  item_parts_cost :: numeric
  item_price_tier :: "string option"

record item_version =
  ver_item_id :: int
  ver_effective_at :: timestamp
  ver_labour_rate :: numeric
  ver_parts_cost :: numeric
  ver_price_tier :: "string option"

record job =
  job_id :: int
  job_customer_id :: int
  job_technician_id :: "int option"
  job_status :: string
  job_scheduled_time :: "timestamp option"
  job_start_time :: "timestamp option"
  job_end_time :: "timestamp option"
  job_notes :: "string option"
  job_created_at :: timestamp
  job_updated_at :: timestamp

record service_history =
  sh_id :: int
  sh_job_id :: int
  sh_customer_id :: int
  sh_performed_at :: timestamp
  sh_notes :: "string option"

record invoice =
  inv_id :: int
  inv_job_id :: int
  inv_amount :: numeric
  inv_status :: string
  inv_issued_at :: timestamp
  inv_due_at :: "timestamp option"
  inv_created_at :: timestamp
  inv_updated_at :: timestamp

record payment =
  pay_id :: int
  pay_invoice_id :: int
  pay_amount :: numeric
  pay_method :: string
  pay_paid_at :: timestamp

text \<open>
  The database: the tables, the ids of the \<^verbatim>\<open>customers\<close> and \<^verbatim>\<open>users\<close> rows (the targets
  of foreign keys), and the last value of each \<^verbatim>\<open>SERIAL\<close> sequence the handlers draw from.
\<close>

record db =
  db_customers :: "int list"
  db_users :: "int list"
  db_items :: "pricebook_item list"
  db_versions :: "item_version list"
  db_jobs :: "job list"
  db_history :: "service_history list"
  db_invoices :: "invoice list"
  db_payments :: "payment list"
  db_jobs_seq :: int
  db_history_seq :: int
  db_invoices_seq :: int
  db_payments_seq :: int

text \<open>
  The values of an \<^verbatim>\<open>INTEGER\<close> column. An id of a request is any integer; a query whose
  parameter for an \<^verbatim>\<open>INTEGER\<close> column lies outside this range is rejected before it runs,
  and the handler's \<^verbatim>\<open>catch\<close> answers 500.
\<close>

definition pg_integer :: "int \<Rightarrow> bool" where
  "pg_integer i = (- 2147483648 \<le> i \<and> i \<le> 2147483647)"

text \<open>
  A \<^verbatim>\<open>NUMERIC(12,2)\<close> column: the value is rounded to two decimals, half away from zero, and
  the statement raises when the rounded value needs more than ten digits before the point.
\<close>

definition round_cents :: "rat \<Rightarrow> rat" where
  "round_cents a = (if 0 \<le> a then of_int \<lfloor>a * 100 + 1 / 2\<rfloor> / 100
                    else - (of_int \<lfloor>- a * 100 + 1 / 2\<rfloor> / 100))"

definition fits_numeric_12_2 :: "rat \<Rightarrow> bool" where
  "fits_numeric_12_2 a = (\<bar>round_cents a\<bar> < 10000000000)"


text \<open>A handler answers with an error (HTTP status and message) or with a JSON body.\<close>

type_synonym 'a response = "(nat \<times> string) + 'a"

section \<open>\<^verbatim>\<open>POST /pricebook/calculate\<close>\<close>

record line =
  line_item_id :: "int option"
  line_quantity :: "number option"
  line_price_tier :: "string option"

record breakdown_entry =
  be_item_id :: int
  be_name :: string
  be_quantity :: number
  be_unit_price :: number
  be_markup_factor :: jsval
  be_total_price :: number

record pricing_result =
  total_amount :: number
  items :: "breakdown_entry list"

text \<open>
  \<^verbatim>\<open>const markups = { good: 1.0, better: 1.15, best: 1.25 }\<close>, read with \<^verbatim>\<open>markups[key]\<close>: the
  three own properties, then the properties of \<^verbatim>\<open>Object.prototype\<close>.
\<close>

definition object_prototype_keys :: "string list" where
  "object_prototype_keys =
     [''constructor'', ''__defineGetter__'', ''__defineSetter__'', ''hasOwnProperty'',
      ''__lookupGetter__'', ''__lookupSetter__'', ''isPrototypeOf'', ''propertyIsEnumerable'',
      ''toString'', ''valueOf'', ''__proto__'', ''toLocaleString'']"

definition markups :: "string \<Rightarrow> jsval" where
  "markups key =
     (if key = ''good'' then Num (fround 1)
      else if key = ''better'' then Num (fround (115 / 100))
      else if key = ''best'' then Num (fround (125 / 100))
      else if key \<in> set object_prototype_keys then Inherited
      else Undefined)"

text \<open>
  \<^verbatim>\<open>SELECT ... FROM pricebook_items WHERE id = $1\<close>, first row. The column is an
  \<^verbatim>\<open>INTEGER\<close>: no row has an id outside its range.
\<close>

definition select_item :: "db \<Rightarrow> int \<Rightarrow> pricebook_item option" where
  "select_item d i = (if pg_integer i then find (\<lambda>it. item_id it = i) (db_items d) else None)"

text \<open>
  \<^verbatim>\<open>SELECT ... FROM pricebook_item_versions WHERE item_id = $1 AND effective_at <= NOW()
  ORDER BY effective_at DESC LIMIT 1\<close>. Rows with the same \<^verbatim>\<open>effective_at\<close> come in storage
  order here; SQL leaves their order open.
\<close>

definition qualifying :: "db \<Rightarrow> timestamp \<Rightarrow> int \<Rightarrow> item_version list" where
  "qualifying d now i =
     filter (\<lambda>v. ver_item_id v = i \<and> ver_effective_at v \<le> now) (db_versions d)"

definition select_version :: "db \<Rightarrow> timestamp \<Rightarrow> int \<Rightarrow> item_version list" where
  "select_version d now i = take 1 (sort_key (\<lambda>v. - ver_effective_at v) (qualifying d now i))"

text \<open>The labour rate, parts cost and default tier the handler settles on for an item.\<close>

definition resolve_rate ::
  "db \<Rightarrow> timestamp \<Rightarrow> int \<Rightarrow> pricebook_item \<Rightarrow> numeric \<times> numeric \<times> string option" where
  "resolve_rate d now i pbItem =
     (case select_version d now i of
        [] \<Rightarrow> (item_labour_rate pbItem, item_parts_cost pbItem, item_price_tier pbItem)
      | version # _ \<Rightarrow> (ver_labour_rate version, ver_parts_cost version,
                        str_or (ver_price_tier version) (item_price_tier pbItem)))"

definition price_entry ::
  "db \<Rightarrow> timestamp \<Rightarrow> int \<Rightarrow> pricebook_item \<Rightarrow> number \<Rightarrow> string option \<Rightarrow> breakdown_entry" where
  "price_entry d now i pbItem quantity price_tier =
     (let (labourRate, partsCost, defaultTier) = resolve_rate d now i pbItem;
          selectedTier = str_or_lit (str_or price_tier defaultTier) ''good'';
          markupFactor = (if truthy (markups selectedTier) then markups selectedTier
                          else Num (fround 1));
          baseUnit = fadd (fround labourRate) (fround partsCost);
          unitPrice = fmul baseUnit (to_number markupFactor);
          lineTotal = fmul unitPrice quantity
      in \<lparr>be_item_id = i, be_name = item_name pbItem, be_quantity = quantity,
          be_unit_price = unitPrice, be_markup_factor = markupFactor,
          be_total_price = lineTotal\<rparr>)"

text \<open>The loop over the request's entries, with the running total \<^verbatim>\<open>total\<close> and the breakdown.\<close>

fun calculate_loop ::
  "db \<Rightarrow> timestamp \<Rightarrow> line list \<Rightarrow> number \<Rightarrow> breakdown_entry list \<Rightarrow> pricing_result response" where
  "calculate_loop d now [] tot breakdown =
     Inr \<lparr>total_amount = tot, items = breakdown\<rparr>"
| "calculate_loop d now (entry # rest) tot breakdown =
     (case (line_item_id entry, line_quantity entry) of
        (Some i, Some quantity) \<Rightarrow>
          if i = 0 then Inl (400, ''Each item must include item_id and quantity'')
          else if \<not> pg_integer i then Inl (500, ''Internal server error'')
          else (case select_item d i of
                  None \<Rightarrow> Inl (400, ''Pricebook item '' @ string_of_int i @ '' not found'')
                | Some pbItem \<Rightarrow>
                    let e = price_entry d now i pbItem quantity (line_price_tier entry)
                    in calculate_loop d now rest (fadd tot (be_total_price e)) (breakdown @ [e]))
      | _ \<Rightarrow> Inl (400, ''Each item must include item_id and quantity''))"

definition calculatePricing :: "db \<Rightarrow> timestamp \<Rightarrow> line list \<Rightarrow> pricing_result response" where
  "calculatePricing d now lines =
     (if lines = [] then Inl (400, ''items array is required'')
      else calculate_loop d now lines (Fin 0) [])"

section \<open>\<^verbatim>\<open>POST /jobs/:id/estimate\<close>\<close>

record estimate_entry =
  ee_item_id :: int
  ee_name :: string
  ee_quantity :: number
  ee_unit_price :: number
  ee_total_price :: number

record estimate_result =
  est_job_id :: int
  est_total_amount :: number
  est_items :: "estimate_entry list"

text \<open>
  \<^verbatim>\<open>SELECT ... FROM jobs WHERE id = $1\<close>, first row; no row has an id outside the
  \<^verbatim>\<open>INTEGER\<close> range.
\<close>

definition select_job :: "db \<Rightarrow> int \<Rightarrow> job option" where
  "select_job d i = (if pg_integer i then find (\<lambda>j. job_id j = i) (db_jobs d) else None)"

fun estimate_loop ::
  "db \<Rightarrow> int \<Rightarrow> line list \<Rightarrow> number \<Rightarrow> estimate_entry list \<Rightarrow> estimate_result response" where
  "estimate_loop d jid [] tot breakdown =
     Inr \<lparr>est_job_id = jid, est_total_amount = tot, est_items = breakdown\<rparr>"
| "estimate_loop d jid (entry # rest) tot breakdown =
     (case (line_item_id entry, line_quantity entry) of
        (Some i, Some quantity) \<Rightarrow>
          if i = 0 then Inl (400, ''Each item must include item_id and quantity'')
          else if \<not> pg_integer i then Inl (500, ''Internal server error'')
          else (case select_item d i of
                  None \<Rightarrow> Inl (400, ''Pricebook item '' @ string_of_int i @ '' not found'')
                | Some pbItem \<Rightarrow>
                    let unitPrice = fadd (fround (item_labour_rate pbItem))
                                         (fround (item_parts_cost pbItem));
                        lineTotal = fmul unitPrice quantity
                    in estimate_loop d jid rest (fadd tot lineTotal)
                         (breakdown @ [\<lparr>ee_item_id = i, ee_name = item_name pbItem,
                            ee_quantity = quantity, ee_unit_price = unitPrice,
                            ee_total_price = lineTotal\<rparr>]))
      | _ \<Rightarrow> Inl (400, ''Each item must include item_id and quantity''))"

definition estimateJob :: "db \<Rightarrow> int \<Rightarrow> line list \<Rightarrow> estimate_result response" where
  "estimateJob d jid lines =
     (if lines = [] then Inl (400, ''items array is required'')
      else if \<not> pg_integer jid then Inl (500, ''Internal server error'')
      else if select_job d jid = None then Inl (404, ''Job not found'')
      else estimate_loop d jid lines (Fin 0) [])"

section \<open>The job handlers\<close>

text \<open>
  A field of a request body: left out (\<^verbatim>\<open>undefined\<close> after destructuring), sent as \<^verbatim>\<open>null\<close>,
  or sent with a value.
\<close>

datatype 'a field = Absent | Null | Val 'a

record patch =
  p_customer_id :: "int field"
  p_technician_id :: "int field"
  p_status :: "string field"
  p_scheduled_time :: "timestamp field"
  p_start_time :: "timestamp field"
  p_end_time :: "timestamp field"
  p_notes :: "string field"

text \<open>A query parameter: the driver sends \<^verbatim>\<open>undefined\<close> and \<^verbatim>\<open>null\<close> alike as SQL \<^verbatim>\<open>NULL\<close>.\<close>

definition sql_param :: "'a field \<Rightarrow> 'a option" where
  "sql_param f = (case f of Val v \<Rightarrow> Some v | _ \<Rightarrow> None)"

text \<open>\<^verbatim>\<open>COALESCE($n, column)\<close>, for a nullable column and for a \<^verbatim>\<open>NOT NULL\<close> one.\<close>

definition coalesce :: "'a option \<Rightarrow> 'a option \<Rightarrow> 'a option" where
  "coalesce param col = (case param of Some v \<Rightarrow> Some v | None \<Rightarrow> col)"

definition coalesce_nn :: "'a option \<Rightarrow> 'a \<Rightarrow> 'a" where
  "coalesce_nn param col = (case param of Some v \<Rightarrow> v | None \<Rightarrow> col)"

text \<open>\<^verbatim>\<open>notes || null\<close> on a body field.\<close>

definition field_or_null :: "string field \<Rightarrow> string option" where
  "field_or_null f = (case f of Val s \<Rightarrow> if s = [] then None else Some s | _ \<Rightarrow> None)"

definition valid_job_statuses :: "string list" where
  "valid_job_statuses = [''scheduled'', ''in_progress'', ''completed'', ''cancelled'']"

text \<open>The constraints of a \<^verbatim>\<open>jobs\<close> row: the status check and the two foreign keys.\<close>

definition job_row_ok :: "db \<Rightarrow> job \<Rightarrow> bool" where
  "job_row_ok d j =
     (job_status j \<in> set valid_job_statuses \<and>
      job_customer_id j \<in> set (db_customers d) \<and>
      (case job_technician_id j of None \<Rightarrow> True | Some t \<Rightarrow> t \<in> set (db_users d)))"

text \<open>The \<^verbatim>\<open>SET\<close> clause of the update.\<close>

definition apply_patch :: "timestamp \<Rightarrow> patch \<Rightarrow> job \<Rightarrow> job" where
  "apply_patch now p j =
     j\<lparr>job_customer_id := coalesce_nn (sql_param (p_customer_id p)) (job_customer_id j),
       job_technician_id := coalesce (sql_param (p_technician_id p)) (job_technician_id j),
       job_status := coalesce_nn (sql_param (p_status p)) (job_status j),
       job_scheduled_time := coalesce (sql_param (p_scheduled_time p)) (job_scheduled_time j),
       job_start_time := coalesce (sql_param (p_start_time p)) (job_start_time j),
       job_end_time := coalesce (sql_param (p_end_time p)) (job_end_time j),
       job_notes := coalesce (sql_param (p_notes p)) (job_notes j),
       job_updated_at := now\<rparr>"

text \<open>The integer parameters of the update that come from the patch.\<close>

definition patch_in_range :: "patch \<Rightarrow> bool" where
  "patch_in_range p =
     ((case p_customer_id p of Val c \<Rightarrow> pg_integer c | _ \<Rightarrow> True) \<and>
      (case p_technician_id p of Val t \<Rightarrow> pg_integer t | _ \<Rightarrow> True))"

text \<open>
  \<^verbatim>\<open>UPDATE jobs SET ... WHERE id = $8 RETURNING *\<close>: the new database and the returned rows,
  or nothing when a parameter is out of range or a new row violates a constraint (the
  statement then raises and changes nothing).
\<close>

definition update_job :: "db \<Rightarrow> timestamp \<Rightarrow> patch \<Rightarrow> int \<Rightarrow> (db \<times> job list) option" where
  "update_job d now p i =
     (let rows = map (apply_patch now p) (filter (\<lambda>j. job_id j = i) (db_jobs d))
      in if pg_integer i \<and> patch_in_range p \<and> list_all (job_row_ok d) rows
         then Some (d\<lparr>db_jobs := map (\<lambda>j. if job_id j = i then apply_patch now p j else j)
                                      (db_jobs d)\<rparr>, rows)
         else None)"

text \<open>\<^verbatim>\<open>SELECT id FROM service_history WHERE job_id = $1\<close>.\<close>

definition select_history :: "db \<Rightarrow> int \<Rightarrow> service_history list" where
  "select_history d i = filter (\<lambda>h. sh_job_id h = i) (db_history d)"

text \<open>
  \<^verbatim>\<open>INSERT INTO service_history (job_id, customer_id, performed_at, notes)
  VALUES ($1, $2, NOW(), $3)\<close>; it raises when a foreign key has no target. A statement that
  raises on a constraint has drawn its id from the sequence all the same.
\<close>

definition insert_history :: "db \<Rightarrow> timestamp \<Rightarrow> int \<Rightarrow> int \<Rightarrow> string option \<Rightarrow> db option" where
  "insert_history d now jid cid notes =
     (if select_job d jid \<noteq> None \<and> cid \<in> set (db_customers d)
      then Some (d\<lparr>db_history := db_history d @
                     [\<lparr>sh_id = db_history_seq d + 1, sh_job_id = jid, sh_customer_id = cid,
                       sh_performed_at = now, sh_notes = notes\<rparr>],
                   db_history_seq := db_history_seq d + 1\<rparr>)
      else None)"

definition draw_history_id :: "db \<Rightarrow> db" where
  "draw_history_id d = d\<lparr>db_history_seq := db_history_seq d + 1\<rparr>"

subsection \<open>Events and the WebSocket clients\<close>

datatype evalue = EStr string | EJob job | EInvoice invoice | EPayment payment | EUndefined

text \<open>An object literal, and the JSON text of it: \<^verbatim>\<open>JSON.stringify\<close> drops \<^verbatim>\<open>undefined\<close> fields.\<close>

type_synonym event = "(string \<times> evalue) list"

definition stringify :: "event \<Rightarrow> event" where
  "stringify data = filter (\<lambda>kv. snd kv \<noteq> EUndefined) data"

record client =
  cl_open :: bool
  cl_received :: "event list"

text \<open>
  What a handler can change: the database, the console, and the clients of the WebSocket
  server \<^verbatim>\<open>wss\<close> (unset until the server is initialised).
\<close>

record world =
  w_db :: db
  w_log :: "string list"
  w_wss :: "client list option"

definition broadcast :: "event \<Rightarrow> world \<Rightarrow> world" where
  "broadcast data w =
     (case w_wss w of
        None \<Rightarrow> w
      | Some clients \<Rightarrow>
          let message = stringify data
          in w\<lparr>w_wss := Some (map (\<lambda>c. if cl_open c
                                         then c\<lparr>cl_received := cl_received c @ [message]\<rparr>
                                         else c) clients)\<rparr>)"

text \<open>
  The queries a handler awaits. A query can be rejected for reasons outside the database
  state (a lost connection); \<open>fails\<close> says which ones are.
\<close>

datatype query = SelectJob | UpdateJob | SelectHistory | InsertHistory
  | InsertJob | InsertInvoice | InsertPayment | DeleteJob

definition no_faults :: "query \<Rightarrow> bool" where
  "no_faults q = False"

text \<open>The outer \<^verbatim>\<open>catch\<close>: \<^verbatim>\<open>console.error(err)\<close> and a 500.\<close>

definition internal_error :: "world \<Rightarrow> 'a response \<times> world" where
  "internal_error w = (Inl (500, ''Internal server error''), w\<lparr>w_log := w_log w @ [''error'']\<rparr>)"

text \<open>The inner \<^verbatim>\<open>catch\<close>.\<close>

definition history_error :: "world \<Rightarrow> world" where
  "history_error w = w\<lparr>w_log := w_log w @ [''Failed to record service history:'']\<rparr>"

definition job_updated :: "job option \<Rightarrow> event" where
  "job_updated updatedJob =
     [(''type'', EStr ''job.updated''),
      (''job'', case updatedJob of None \<Rightarrow> EUndefined | Some j \<Rightarrow> EJob j)]"

subsection \<open>\<^verbatim>\<open>PUT /jobs/:id\<close>\<close>

text \<open>
  The handler awaits each of its queries. It is given twice: here as the function of a
  request that runs with no other request between its queries, and below one query at a
  time, for requests that run in between one another.
\<close>

text \<open>
  The \<^verbatim>\<open>try\<close> block that records the service history. Reading \<^verbatim>\<open>updatedJob.customer_id\<close>
  raises when the update returned no row.
\<close>

definition record_history ::
  "(query \<Rightarrow> bool) \<Rightarrow> timestamp \<Rightarrow> int \<Rightarrow> patch \<Rightarrow> job option \<Rightarrow> world \<Rightarrow> world" where
  "record_history fails now i p updatedJob w =
     (if fails SelectHistory then history_error w
      else if select_history (w_db w) i = [] then
        (case updatedJob of
           None \<Rightarrow> history_error w
         | Some uj \<Rightarrow>
             if fails InsertHistory then history_error w
             else (case insert_history (w_db w) now i (job_customer_id uj)
                         (field_or_null (p_notes p)) of
                     None \<Rightarrow> history_error (w\<lparr>w_db := draw_history_id (w_db w)\<rparr>)
                   | Some d' \<Rightarrow> w\<lparr>w_db := d'\<rparr>))
      else w)"

definition setJobStatus ::
  "(query \<Rightarrow> bool) \<Rightarrow> timestamp \<Rightarrow> int \<Rightarrow> patch \<Rightarrow> world \<Rightarrow> job option response \<times> world" where
  "setJobStatus fails now i p w =
     (if fails SelectJob \<or> \<not> pg_integer i then internal_error w
      else case select_job (w_db w) i of
        None \<Rightarrow> (Inl (404, ''Job not found''), w)
      | Some existingJob \<Rightarrow>
          let prevStatus = job_status existingJob
          in if fails UpdateJob then internal_error w
             else (case update_job (w_db w) now p i of
                     None \<Rightarrow> internal_error w
                   | Some (d', rows) \<Rightarrow>
                       let updatedJob = (case rows of [] \<Rightarrow> None | r # _ \<Rightarrow> Some r);
                           w1 = w\<lparr>w_db := d'\<rparr>;
                           w2 = (if p_status p = Val ''completed'' \<and> prevStatus \<noteq> ''completed''
                                 then record_history fails now i p updatedJob w1 else w1)
                       in (Inr updatedJob, broadcast (job_updated updatedJob) w2)))"

subsection \<open>The same handler, one awaited query at a time\<close>

text \<open>
  The handler is an \<^verbatim>\<open>async\<close> function: it runs until it awaits a query, and other requests
  run in between. A task is a request in flight, stopped before its next query.
\<close>

datatype task =
    AtSelectJob
  | AtUpdateJob string
  | AtSelectHistory "job option"
  | AtInsertHistory job
  | Finished "job option response"

definition respond :: "job option \<Rightarrow> world \<Rightarrow> task \<times> world" where
  "respond updatedJob w = (Finished (Inr updatedJob), broadcast (job_updated updatedJob) w)"

definition failed :: "world \<Rightarrow> task \<times> world" where
  "failed w = (Finished (Inl (500, ''Internal server error'')), w\<lparr>w_log := w_log w @ [''error'']\<rparr>)"

fun step :: "(query \<Rightarrow> bool) \<Rightarrow> timestamp \<Rightarrow> int \<Rightarrow> patch \<Rightarrow> task \<Rightarrow> world \<Rightarrow> task \<times> world" where
  "step fails now i p AtSelectJob w =
     (if fails SelectJob \<or> \<not> pg_integer i then failed w
      else case select_job (w_db w) i of
        None \<Rightarrow> (Finished (Inl (404, ''Job not found'')), w)
      | Some existingJob \<Rightarrow> (AtUpdateJob (job_status existingJob), w))"
| "step fails now i p (AtUpdateJob prevStatus) w =
     (if fails UpdateJob then failed w
      else case update_job (w_db w) now p i of
        None \<Rightarrow> failed w
      | Some (d', rows) \<Rightarrow>
          let updatedJob = (case rows of [] \<Rightarrow> None | r # _ \<Rightarrow> Some r);
              w1 = w\<lparr>w_db := d'\<rparr>
          in if p_status p = Val ''completed'' \<and> prevStatus \<noteq> ''completed''
             then (AtSelectHistory updatedJob, w1)
             else respond updatedJob w1)"
| "step fails now i p (AtSelectHistory updatedJob) w =
     (if fails SelectHistory then respond updatedJob (history_error w)
      else if select_history (w_db w) i = [] then
        (case updatedJob of
           None \<Rightarrow> respond updatedJob (history_error w)
         | Some uj \<Rightarrow> (AtInsertHistory uj, w))
      else respond updatedJob w)"
| "step fails now i p (AtInsertHistory uj) w =
     (if fails InsertHistory then respond (Some uj) (history_error w)
      else case insert_history (w_db w) now i (job_customer_id uj) (field_or_null (p_notes p)) of
        None \<Rightarrow> respond (Some uj) (history_error (w\<lparr>w_db := draw_history_id (w_db w)\<rparr>))
      | Some d' \<Rightarrow> respond (Some uj) (w\<lparr>w_db := d'\<rparr>))"
| "step fails now i p (Finished r) w = (Finished r, w)"

text \<open>One request run alone: its four steps in a row.\<close>

definition run_alone ::
  "(query \<Rightarrow> bool) \<Rightarrow> timestamp \<Rightarrow> int \<Rightarrow> patch \<Rightarrow> world \<Rightarrow> task \<times> world" where
  "run_alone fails now i p w =
     (let (t1, w1) = step fails now i p AtSelectJob w;
          (t2, w2) = step fails now i p t1 w1;
          (t3, w3) = step fails now i p t2 w2
      in step fails now i p t3 w3)"


subsection \<open>\<^verbatim>\<open>DELETE /jobs/:id\<close>\<close>

text \<open>
  \<^verbatim>\<open>DELETE FROM jobs WHERE id = $1\<close>, answered with 404 when no row went and with an empty
  204 otherwise. The rows of \<^verbatim>\<open>service_history\<close> and \<^verbatim>\<open>invoices\<close> that reference the job,
  and the payments of these invoices, go with it (\<^verbatim>\<open>ON DELETE CASCADE\<close>).
\<close>

definition deleteJob :: "(query \<Rightarrow> bool) \<Rightarrow> int \<Rightarrow> world \<Rightarrow> unit response \<times> world" where
  "deleteJob fails i w =
     (if fails DeleteJob \<or> \<not> pg_integer i then internal_error w
      else
        let d = w_db w;
            gone = map inv_id (filter (\<lambda>v. inv_job_id v = i) (db_invoices d))
        in if filter (\<lambda>j. job_id j = i) (db_jobs d) = []
           then (Inl (404, ''Job not found''), w)
           else (Inr (),
                 w\<lparr>w_db := d\<lparr>db_jobs := filter (\<lambda>j. job_id j \<noteq> i) (db_jobs d),
                              db_history := filter (\<lambda>h. sh_job_id h \<noteq> i) (db_history d),
                              db_invoices := filter (\<lambda>v. inv_job_id v \<noteq> i) (db_invoices d),
                              db_payments := filter (\<lambda>q. pay_invoice_id q \<notin> set gone)
                                               (db_payments d)\<rparr>\<rparr>))"

subsection \<open>The handlers that create a job, an invoice and a payment\<close>

record new_job =
  nj_customer_id :: "int option"
  nj_technician_id :: "int option"
  nj_status :: "string option"
  nj_scheduled_time :: "timestamp option"
  nj_notes :: "string option"

text \<open>\<^verbatim>\<open>x || null\<close> on an optional id: \<^verbatim>\<open>0\<close> is falsy.\<close>

definition id_or_null :: "int option \<Rightarrow> int option" where
  "id_or_null x = (if x = Some 0 then None else x)"

text \<open>
  \<^verbatim>\<open>POST /jobs\<close>. An insert whose id parameter is out of range is rejected; one that raises
  on a constraint has drawn its id from the sequence.
\<close>

definition createJob ::
  "(query \<Rightarrow> bool) \<Rightarrow> timestamp \<Rightarrow> new_job \<Rightarrow> world \<Rightarrow> job response \<times> world" where
  "createJob fails now b w =
     (if id_or_null (nj_customer_id b) = None \<or> \<not> str_truthy (nj_status b)
      then (Inl (400, ''customer_id and status are required''), w)
      else if the (nj_status b) \<notin> set valid_job_statuses
      then (Inl (400, ''Invalid status''), w)
      else
        let d = w_db w;
            row = \<lparr>job_id = db_jobs_seq d + 1, job_customer_id = the (nj_customer_id b),
                   job_technician_id = id_or_null (nj_technician_id b),
                   job_status = the (nj_status b),
                   job_scheduled_time = nj_scheduled_time b,
                   job_start_time = None, job_end_time = None,
                   job_notes = str_or (nj_notes b) None,
                   job_created_at = now, job_updated_at = now\<rparr>
        in if fails InsertJob \<or> \<not> pg_integer (job_customer_id row) \<or>
              \<not> pg_integer (case job_technician_id row of None \<Rightarrow> 0 | Some t \<Rightarrow> t)
           then internal_error w
           else if \<not> job_row_ok d row
           then internal_error (w\<lparr>w_db := d\<lparr>db_jobs_seq := db_jobs_seq d + 1\<rparr>\<rparr>)
           else (Inr row,
                 broadcast [(''type'', EStr ''job.created''), (''job'', EJob row)]
                   (w\<lparr>w_db := d\<lparr>db_jobs := db_jobs d @ [row],
                                  db_jobs_seq := db_jobs_seq d + 1\<rparr>\<rparr>)))"

definition valid_invoice_statuses :: "string list" where
  "valid_invoice_statuses = [''draft'', ''sent'', ''paid'', ''overdue'', ''cancelled'']"

text \<open>
  \<^verbatim>\<open>INSERT INTO invoices (job_id, amount, status, due_at) VALUES ($1,$2,$3,$4) RETURNING *\<close>:
  it raises when the job does not exist, the status fails its check or the amount does not
  fit its column.
\<close>

definition insert_invoice ::
  "db \<Rightarrow> timestamp \<Rightarrow> int \<Rightarrow> numeric \<Rightarrow> string \<Rightarrow> timestamp option \<Rightarrow> (db \<times> invoice) option" where
  "insert_invoice d now jid amount status due_at =
     (if select_job d jid \<noteq> None \<and> status \<in> set valid_invoice_statuses \<and>
         fits_numeric_12_2 amount
      then let row = \<lparr>inv_id = db_invoices_seq d + 1, inv_job_id = jid,
                      inv_amount = round_cents amount,
                      inv_status = status, inv_issued_at = now, inv_due_at = due_at,
                      inv_created_at = now, inv_updated_at = now\<rparr>
           in Some (d\<lparr>db_invoices := db_invoices d @ [row],
                      db_invoices_seq := db_invoices_seq d + 1\<rparr>, row)
      else None)"

definition draw_invoice_id :: "db \<Rightarrow> db" where
  "draw_invoice_id d = d\<lparr>db_invoices_seq := db_invoices_seq d + 1\<rparr>"

record new_invoice =
  ni_job_id :: "int option"
  ni_amount :: "numeric option"
  ni_status :: "string option"
  ni_due_at :: "timestamp option"

text \<open>\<^verbatim>\<open>POST /jobs/:id/invoice\<close>; the job id comes from the path.\<close>

definition createJobInvoice ::
  "(query \<Rightarrow> bool) \<Rightarrow> timestamp \<Rightarrow> int \<Rightarrow> new_invoice \<Rightarrow> world \<Rightarrow> invoice response \<times> world" where
  "createJobInvoice fails now i b w =
     (case ni_amount b of
        None \<Rightarrow> (Inl (400, ''amount is required''), w)
      | Some amount \<Rightarrow>
          let invoiceStatus = str_or_lit (ni_status b) ''draft''
          in if invoiceStatus \<notin> set valid_invoice_statuses
             then (Inl (400, ''Invalid invoice status''), w)
             else if fails SelectJob \<or> \<not> pg_integer i then internal_error w
             else if select_job (w_db w) i = None then (Inl (404, ''Job not found''), w)
             else if fails InsertInvoice then internal_error w
             else (case insert_invoice (w_db w) now i amount invoiceStatus (ni_due_at b) of
                     None \<Rightarrow> internal_error (w\<lparr>w_db := draw_invoice_id (w_db w)\<rparr>)
                   | Some (d', invoice) \<Rightarrow>
                       (Inr invoice,
                        broadcast [(''type'', EStr ''invoice.created''), (''invoice'', EInvoice invoice)]
                          (w\<lparr>w_db := d'\<rparr>))))"

text \<open>\<^verbatim>\<open>POST /invoices\<close>.\<close>

definition createInvoice ::
  "(query \<Rightarrow> bool) \<Rightarrow> timestamp \<Rightarrow> new_invoice \<Rightarrow> world \<Rightarrow> invoice response \<times> world" where
  "createInvoice fails now b w =
     (if id_or_null (ni_job_id b) = None \<or> ni_amount b = None \<or> \<not> str_truthy (ni_status b)
      then (Inl (400, ''job_id, amount and status are required''), w)
      else if the (ni_status b) \<notin> set valid_invoice_statuses
      then (Inl (400, ''Invalid status''), w)
      else if fails InsertInvoice \<or> \<not> pg_integer (the (ni_job_id b)) then internal_error w
      else (case insert_invoice (w_db w) now (the (ni_job_id b)) (the (ni_amount b))
                  (the (ni_status b)) (ni_due_at b) of
              None \<Rightarrow> internal_error (w\<lparr>w_db := draw_invoice_id (w_db w)\<rparr>)
            | Some (d', invoice) \<Rightarrow>
                (Inr invoice,
                 broadcast [(''type'', EStr ''invoice.created''), (''invoice'', EInvoice invoice)]
                   (w\<lparr>w_db := d'\<rparr>))))"

record new_payment =
  np_invoice_id :: "int option"
  np_amount :: "numeric option"
  np_method :: "string option"

text \<open>
  \<^verbatim>\<open>POST /payments\<close>; the insert raises when the invoice does not exist, the amount does
  not fit its column, or the method is longer than its \<^verbatim>\<open>VARCHAR(50)\<close>.
\<close>

definition createPayment ::
  "(query \<Rightarrow> bool) \<Rightarrow> timestamp \<Rightarrow> new_payment \<Rightarrow> world \<Rightarrow> payment response \<times> world" where
  "createPayment fails now b w =
     (if id_or_null (np_invoice_id b) = None \<or> np_amount b = None \<or> \<not> str_truthy (np_method b)
      then (Inl (400, ''invoice_id, amount and method are required''), w)
      else
        let d = w_db w;
            payment = \<lparr>pay_id = db_payments_seq d + 1, pay_invoice_id = the (np_invoice_id b),
                       pay_amount = round_cents (the (np_amount b)),
                       pay_method = the (np_method b), pay_paid_at = now\<rparr>
        in if fails InsertPayment \<or> \<not> pg_integer (pay_invoice_id payment) then internal_error w
           else if find (\<lambda>v. inv_id v = pay_invoice_id payment) (db_invoices d) = None \<or>
                   \<not> fits_numeric_12_2 (the (np_amount b)) \<or> 50 < length (pay_method payment)
           then internal_error (w\<lparr>w_db := d\<lparr>db_payments_seq := db_payments_seq d + 1\<rparr>\<rparr>)
           else (Inr payment,
                 broadcast [(''type'', EStr ''payment.created''), (''payment'', EPayment payment)]
                   (w\<lparr>w_db := d\<lparr>db_payments := db_payments d @ [payment],
                                  db_payments_seq := db_payments_seq d + 1\<rparr>\<rparr>)))"

section \<open>Notions used in the statements\<close>

text \<open>A line that the loop prices: it has an item id and a quantity, and the item exists.\<close>

definition line_ok :: "db \<Rightarrow> line \<Rightarrow> bool" where
  "line_ok d l = (case (line_item_id l, line_quantity l) of
      (Some i, Some q) \<Rightarrow> i \<noteq> 0 \<and> select_item d i \<noteq> None
    | _ \<Rightarrow> False)"

text \<open>
  A line that passes the loop's validation and whose item id is in the range of the
  \<^verbatim>\<open>INTEGER\<close> column.
\<close>

definition line_wf :: "line \<Rightarrow> bool" where
  "line_wf l = (case (line_item_id l, line_quantity l) of
      (Some i, Some q) \<Rightarrow> i \<noteq> 0 \<and> pg_integer i
    | _ \<Rightarrow> False)"

text \<open>The breakdown entry of a line that is priced.\<close>

definition entry_of :: "db \<Rightarrow> timestamp \<Rightarrow> line \<Rightarrow> breakdown_entry" where
  "entry_of d now l =
     price_entry d now (the (line_item_id l)) (the (select_item d (the (line_item_id l))))
       (the (line_quantity l)) (line_price_tier l)"

text \<open>
  The effective tier of a line (an empty string counting as absent) and the markup table, as
  the specification words them.
\<close>

definition effective_tier :: "string option \<Rightarrow> string option \<Rightarrow> string" where
  "effective_tier line_tier resolved_tier =
     (if str_truthy line_tier then the line_tier
      else if str_truthy resolved_tier then the resolved_tier
      else ''good'')"

definition markup_table :: "string \<Rightarrow> rat" where
  "markup_table t = (if t = ''good'' then 1 else if t = ''better'' then 115 / 100
                     else if t = ''best'' then 125 / 100 else 1)"

text \<open>
  A catalog with one item: labour rate 60, parts cost 40, tier \<^verbatim>\<open>better\<close>; and a request
  line for it.
\<close>

definition ex_item :: pricebook_item where
  "ex_item = \<lparr>item_id = 1, item_name = ''Service call'', item_labour_rate = 60,
              item_parts_cost = 40, item_price_tier = Some ''better''\<rparr>"

definition ex_db :: db where
  "ex_db = \<lparr>db_customers = [1], db_users = [1], db_items = [ex_item], db_versions = [],
            db_jobs = [], db_history = [], db_invoices = [], db_payments = [],
            db_jobs_seq = 0, db_history_seq = 0, db_invoices_seq = 0, db_payments_seq = 0\<rparr>"

definition ex_line :: "int \<Rightarrow> rat \<Rightarrow> string option \<Rightarrow> line" where
  "ex_line i q t = \<lparr>line_item_id = Some i, line_quantity = Some (Fin q), line_price_tier = t\<rparr>"

text \<open>The same catalog with two rate versions of item 1, effective at 10 and at 20.\<close>

definition rate_db :: db where
  "rate_db = ex_db\<lparr>db_versions :=
     [\<lparr>ver_item_id = 1, ver_effective_at = 10, ver_labour_rate = 60, ver_parts_cost = 40,
       ver_price_tier = Some ''good''\<rparr>,
      \<lparr>ver_item_id = 1, ver_effective_at = 20, ver_labour_rate = 80, ver_parts_cost = 50,
       ver_price_tier = None\<rparr>]\<rparr>"



text \<open>A database with one job, scheduled, and a world with one connected client.\<close>

definition ex_job :: job where
  "ex_job = \<lparr>job_id = 7, job_customer_id = 1, job_technician_id = None,
             job_status = ''scheduled'', job_scheduled_time = None, job_start_time = None,
             job_end_time = None, job_notes = Some ''Bring a ladder'', job_created_at = 0,
             job_updated_at = 0\<rparr>"

definition job_db :: db where
  "job_db = ex_db\<lparr>db_jobs := [ex_job], db_jobs_seq := 7\<rparr>"

text \<open>
  The answer the handlers give for an absent job, invoice or item named in the path:
  status 404.
\<close>

definition is_not_found :: "'a response \<Rightarrow> bool" where
  "is_not_found r = (case r of Inl (status, msg) \<Rightarrow> status = 404 | Inr _ \<Rightarrow> False)"

text \<open>A patch with its \<^verbatim>\<open>null\<close> fields left out.\<close>

definition omit_nulls :: "patch \<Rightarrow> patch" where
  "omit_nulls p =
     \<lparr>p_customer_id = (case p_customer_id p of Null \<Rightarrow> Absent | f \<Rightarrow> f),
      p_technician_id = (case p_technician_id p of Null \<Rightarrow> Absent | f \<Rightarrow> f),
      p_status = (case p_status p of Null \<Rightarrow> Absent | f \<Rightarrow> f),
      p_scheduled_time = (case p_scheduled_time p of Null \<Rightarrow> Absent | f \<Rightarrow> f),
      p_start_time = (case p_start_time p of Null \<Rightarrow> Absent | f \<Rightarrow> f),
      p_end_time = (case p_end_time p of Null \<Rightarrow> Absent | f \<Rightarrow> f),
      p_notes = (case p_notes p of Null \<Rightarrow> Absent | f \<Rightarrow> f)\<rparr>"

text \<open>The patches of the examples.\<close>

definition empty_patch :: patch where
  "empty_patch = \<lparr>p_customer_id = Absent, p_technician_id = Absent, p_status = Absent,
                  p_scheduled_time = Absent, p_start_time = Absent, p_end_time = Absent,
                  p_notes = Absent\<rparr>"

definition complete_patch :: patch where
  "complete_patch = empty_patch\<lparr>p_status := Val ''completed''\<rparr>"

definition reopen_patch :: patch where
  "reopen_patch = empty_patch\<lparr>p_status := Val ''scheduled''\<rparr>"

definition ex_world :: world where
  "ex_world = \<lparr>w_db = job_db, w_log = [],
               w_wss = Some [\<lparr>cl_open = True, cl_received = []\<rparr>]\<rparr>"

text \<open>What a patch field does to a column: a value replaces it, anything else keeps it.\<close>

definition patched :: "'a field \<Rightarrow> 'a \<Rightarrow> 'a \<Rightarrow> bool" where
  "patched f old new = (case f of Val v \<Rightarrow> new = v | _ \<Rightarrow> new = old)"

definition patched_opt :: "'a field \<Rightarrow> 'a option \<Rightarrow> 'a option \<Rightarrow> bool" where
  "patched_opt f old new = (case f of Val v \<Rightarrow> new = Some v | _ \<Rightarrow> new = old)"

text \<open>The fault in which the insert into \<^verbatim>\<open>service_history\<close> is rejected.\<close>

definition insert_fails :: "query \<Rightarrow> bool" where
  "insert_fails q = (q = InsertHistory)"


text \<open>The messages the clients received between two states of the world.\<close>

definition delivered :: "world \<Rightarrow> world \<Rightarrow> event list" where
  "delivered w w' =
     (case (w_wss w, w_wss w') of
        (Some cs, Some cs') \<Rightarrow>
          concat (map (\<lambda>(c, c'). drop (length (cl_received c)) (cl_received c')) (zip cs cs'))
      | _ \<Rightarrow> [])"

text \<open>
  A domain event as the handlers build it: a type, and the entity under a key named after its
  kind.
\<close>

definition domain_event :: "event \<Rightarrow> bool" where
  "domain_event m =
     (case m of
        [(k1, EStr t), (k2, v)] \<Rightarrow>
          k1 = ''type'' \<and>
          (case v of
             EJob j \<Rightarrow> k2 = ''job'' \<and> (t = ''job.created'' \<or> t = ''job.updated'')
           | EInvoice i \<Rightarrow> k2 = ''invoice'' \<and> t = ''invoice.created''
           | EPayment p \<Rightarrow> k2 = ''payment'' \<and> t = ''payment.created''
           | _ \<Rightarrow> False)
      | _ \<Rightarrow> False)"

text \<open>
  The \<^verbatim>\<open>job.updated\<close> event of an update that returned no row, as the clients receive it:
  only the type is left.
\<close>

definition job_updated_bare :: event where
  "job_updated_bare = [(''type'', EStr ''job.updated'')]"

text \<open>
  Whether a request in flight has its job: before the update, the job is stored; after it,
  the update has returned a row.
\<close>

fun carries_job :: "db \<Rightarrow> int \<Rightarrow> task \<Rightarrow> bool" where
  "carries_job d i (AtUpdateJob prev) = (select_job d i \<noteq> None)"
| "carries_job d i (AtSelectHistory u) = (u \<noteq> None)"
| "carries_job d i t = True"

text \<open>A domain event as the specification words it: a type, and a field \<^verbatim>\<open>payload\<close>.\<close>

definition payload_event :: "event \<Rightarrow> bool" where
  "payload_event m =
     (case m of
        [(k1, EStr t), (k2, v)] \<Rightarrow>
          k1 = ''type'' \<and>
          t \<in> set [''job.created'', ''job.updated'', ''invoice.created'', ''payment.created''] \<and>
          k2 = ''payload''
      | _ \<Rightarrow> False)"


text \<open>Every stored job satisfies the constraints of its table.\<close>

definition jobs_ok :: "db \<Rightarrow> bool" where
  "jobs_ok d = list_all (job_row_ok d) (db_jobs d)"

text \<open>
  A patch that the update accepts: the status it gives is one of the four, the customer and
  the technician it gives are in the range of \<^verbatim>\<open>INTEGER\<close> and exist.
\<close>

definition patch_fits :: "db \<Rightarrow> patch \<Rightarrow> bool" where
  "patch_fits d p =
     ((case p_status p of Val s \<Rightarrow> s \<in> set valid_job_statuses | _ \<Rightarrow> True) \<and>
      (case p_customer_id p of Val c \<Rightarrow> pg_integer c \<and> c \<in> set (db_customers d) | _ \<Rightarrow> True) \<and>
      (case p_technician_id p of Val t \<Rightarrow> pg_integer t \<and> t \<in> set (db_users d) | _ \<Rightarrow> True))"















section \<open>Evaluating numbers\<close>

lemma floor_rat_numeral_div: "\<lfloor>numeral a / numeral b :: rat\<rfloor> = numeral a div numeral b"
  using floor_divide_of_int_eq[of "numeral a" "numeral b", where ?'a = rat] by simp

lemma ceiling_rat_numeral_div: "\<lceil>numeral a / numeral b :: rat\<rceil> = - (- numeral a div numeral b)"
  using floor_divide_of_int_eq[of "- numeral a" "numeral b", where ?'a = rat]
  by (simp add: ceiling_def)

lemma pow2n_numeral:
  "pow2n (numeral k) =
     (let h = pow2n (numeral k div 2) in if even (numeral k :: int) then h * h else 2 * h * h)"
  by (subst pow2n.simps) simp

lemma pow2n_0: "pow2n 0 = 1"
  by (subst pow2n.simps) simp

lemma pow2n_1: "pow2n 1 = 2"
  by (subst pow2n.simps) (simp add: pow2n_0)

lemma bitlen_numeral: "bitlen (numeral k) = 1 + bitlen (numeral k div 2)"
  by (subst bitlen.simps) simp

lemma bitlen_0: "bitlen 0 = 0"
  by (subst bitlen.simps) simp

lemma bitlen_1: "bitlen 1 = 1"
  by (subst bitlen.simps) (simp add: bitlen_0)

lemmas num_eval = fround_def ilog2_def pow2_def round_half_even_def Let_def
  floor_rat_numeral_div ceiling_rat_numeral_div pow2n_numeral pow2n_0 pow2n_1
  bitlen_numeral bitlen_0 bitlen_1 fmul_def fadd_def

text \<open>The three markup factors as binary64 values: 1.15 is not representable, 1.25 is.\<close>

lemma fround_one: "fround 1 = Fin 1"
  by (simp add: num_eval)

lemma fround_better: "fround (23 / 20) = Fin (2589569785738035 / 2251799813685248)"
  by (simp add: num_eval)

lemma fround_best: "fround (5 / 4) = Fin (5 / 4)"
  by (simp add: num_eval)

text \<open>The arithmetic of the examples: \<open>60 + 40\<close>, \<open>100 * 1.15\<close>, and the line totals.\<close>

lemma fround_60: "fround 60 = Fin 60"
  by (simp add: num_eval)

lemma fround_40: "fround 40 = Fin 40"
  by (simp add: num_eval)

lemma fadd_60_40: "fadd (Fin 60) (Fin 40) = Fin 100"
  by (simp add: num_eval)

lemma fmul_100_better:
  "fmul (Fin 100) (Fin (2589569785738035 / 2251799813685248)) =
   Fin (8092405580431359 / 70368744177664)"
  by (simp add: num_eval)

lemma fmul_unit_2:
  "fmul (Fin (8092405580431359 / 70368744177664)) (Fin 2) =
   Fin (8092405580431359 / 35184372088832)"
  by (simp add: num_eval)

lemma fadd_0_total:
  "fadd (Fin 0) (Fin (8092405580431359 / 35184372088832)) =
   Fin (8092405580431359 / 35184372088832)"
  by (simp add: num_eval)

lemma fmul_100_1: "fmul (Fin 100) (Fin 1) = Fin 100"
  by (simp add: num_eval)

lemma fmul_100_2: "fmul (Fin 100) (Fin 2) = Fin 200"
  by (simp add: num_eval)

lemma fadd_0_200: "fadd (Fin 0) (Fin 200) = Fin 200"
  by (simp add: num_eval)

lemma fmul_NaN: "fmul x NaN = NaN" "fmul NaN x = NaN"
  by (simp_all add: fmul_def)

lemma fadd_NaN: "fadd x NaN = NaN" "fadd NaN x = NaN"
  by (simp_all add: fadd_def)

lemmas ex_nums = fround_one fround_better fround_best fround_60 fround_40 fadd_60_40
  fmul_100_better fmul_unit_2 fadd_0_total fmul_100_1 fmul_100_2 fadd_0_200 fmul_NaN fadd_NaN
  to_number_def truthy_def

lemmas calc_eval = calculatePricing_def price_entry_def resolve_rate_def select_version_def
  qualifying_def select_item_def markups_def object_prototype_keys_def str_or_def
  str_or_lit_def str_truthy_def ex_db_def ex_item_def ex_line_def rate_db_def
  string_of_int_def digits_of.simps pg_integer_def

section \<open>Rate resolution\<close>




section \<open>Pricing\<close>

lemma select_item_range: "select_item d i = Some it \<Longrightarrow> pg_integer i"
  by (simp add: select_item_def split: if_splits)

lemma calculate_loop_ok:
  "\<forall>l \<in> set lines. line_ok d l \<Longrightarrow>
   calculate_loop d now lines tot bd =
     Inr \<lparr>total_amount = foldl fadd tot (map (\<lambda>l. be_total_price (entry_of d now l)) lines),
          items = bd @ map (entry_of d now) lines\<rparr>"
proof (induction lines arbitrary: tot bd)
  case Nil
  then show ?case by simp
next
  case (Cons l ls)
  from Cons.prems have ok: "line_ok d l" and rest: "\<forall>l \<in> set ls. line_ok d l" by simp_all
  from ok obtain i q it where l: "line_item_id l = Some i" "line_quantity l = Some q"
      "i \<noteq> 0" "select_item d i = Some it"
    by (auto simp: line_ok_def split: option.splits)
  from l(4) have "pg_integer i" by (rule select_item_range)
  then show ?case using l Cons.IH[OF rest]
    by (simp add: entry_of_def Let_def)
qed

lemma markups_table:
  "t \<notin> set object_prototype_keys \<Longrightarrow>
   (if truthy (markups t) then markups t else Num (fround 1)) = Num (fround (markup_table t))"
  by (simp add: markups_def markup_table_def truthy_def fround_one fround_better fround_best)

lemma selected_tier: "str_or_lit (str_or a b) ''good'' = effective_tier a b"
  by (auto simp: str_or_lit_def str_or_def effective_tier_def str_truthy_def split: option.splits)

lemma price_entry_fields:
  assumes "resolve_rate d now i pbItem = (labourRate, partsCost, resolvedTier)"
  shows "be_unit_price (price_entry d now i pbItem q t) =
           fmul (fadd (fround labourRate) (fround partsCost))
                (to_number (be_markup_factor (price_entry d now i pbItem q t)))"
    and "be_total_price (price_entry d now i pbItem q t) =
           fmul (be_unit_price (price_entry d now i pbItem q t)) q"
    and "effective_tier t resolvedTier \<notin> set object_prototype_keys \<Longrightarrow>
         be_markup_factor (price_entry d now i pbItem q t) =
           Num (fround (markup_table (effective_tier t resolvedTier)))"
  using assms markups_table[of "effective_tier t resolvedTier"]
  by (simp_all add: price_entry_def Let_def selected_tier)

text \<open>
  C3, as the code has it. For a non-empty list of lines that all name an existing item and
  carry a quantity, the answer holds one breakdown entry per line, in order, and the total
  is the lines' totals added from 0 in that order with binary64 addition. For each line the
  effective tier is the line's tier when present and non-empty, else the resolved tier, else
  \<^verbatim>\<open>good\<close>; unless that tier names a property inherited from \<^verbatim>\<open>Object.prototype\<close>, the markup
  factor is the binary64 value of the table entry (1.0, 1.15, 1.25, and 1.0 for any other
  string); the unit price is the binary64 product of (labour rate + parts cost) and the
  factor, and the line total the binary64 product of the unit price and the quantity.
\<close>

theorem calculatePricing_prices:
  assumes "lines \<noteq> []" and "\<forall>l \<in> set lines. line_ok d l"
  shows "calculatePricing d now lines =
           Inr \<lparr>total_amount =
                  foldl fadd (Fin 0) (map (\<lambda>l. be_total_price (entry_of d now l)) lines),
                items = map (entry_of d now) lines\<rparr> \<and>
         (\<forall>l \<in> set lines.
            case resolve_rate d now (the (line_item_id l))
                   (the (select_item d (the (line_item_id l)))) of
              (labourRate, partsCost, resolvedTier) \<Rightarrow>
                (effective_tier (line_price_tier l) resolvedTier \<notin> set object_prototype_keys \<longrightarrow>
                   be_markup_factor (entry_of d now l) =
                     Num (fround (markup_table (effective_tier (line_price_tier l) resolvedTier)))) \<and>
                be_unit_price (entry_of d now l) =
                  fmul (fadd (fround labourRate) (fround partsCost))
                       (to_number (be_markup_factor (entry_of d now l))) \<and>
                be_total_price (entry_of d now l) =
                  fmul (be_unit_price (entry_of d now l)) (the (line_quantity l)))"
proof (intro conjI ballI)
  show "calculatePricing d now lines =
      Inr \<lparr>total_amount =
             foldl fadd (Fin 0) (map (\<lambda>l. be_total_price (entry_of d now l)) lines),
           items = map (entry_of d now) lines\<rparr>"
    using assms calculate_loop_ok[of lines d now "Fin 0" "[]"]
    by (simp add: calculatePricing_def)
next
  fix l assume "l \<in> set lines"
  obtain a b c where r: "resolve_rate d now (the (line_item_id l))
      (the (select_item d (the (line_item_id l)))) = (a, b, c)"
    by (cases "resolve_rate d now (the (line_item_id l))
          (the (select_item d (the (line_item_id l))))") auto
  show "case resolve_rate d now (the (line_item_id l))
             (the (select_item d (the (line_item_id l)))) of
      (labourRate, partsCost, resolvedTier) \<Rightarrow>
        (effective_tier (line_price_tier l) resolvedTier \<notin> set object_prototype_keys \<longrightarrow>
           be_markup_factor (entry_of d now l) =
             Num (fround (markup_table (effective_tier (line_price_tier l) resolvedTier)))) \<and>
        be_unit_price (entry_of d now l) =
          fmul (fadd (fround labourRate) (fround partsCost))
               (to_number (be_markup_factor (entry_of d now l))) \<and>
        be_total_price (entry_of d now l) =
          fmul (be_unit_price (entry_of d now l)) (the (line_quantity l))"
    using price_entry_fields[OF r] by (simp add: r entry_of_def)
qed

text \<open>
  The item of the specification's example (60, 40, \<^verbatim>\<open>better\<close>) with quantity 2: the unit price
  is \<open>115 - 2\<^sup>-\<^sup>4\<^sup>6\<close> (114.99999999999999) and the line total and the total amount are
  \<open>230 - 2\<^sup>-\<^sup>4\<^sup>5\<close> (229.99999999999997).
\<close>

theorem calculatePricing_prices_witness:
  "[ex_line 1 2 None] \<noteq> [] \<and> list_all (line_ok ex_db) [ex_line 1 2 None] \<and>
   calculatePricing ex_db 0 [ex_line 1 2 None] =
     Inr \<lparr>total_amount = Fin (230 - 1 / 2 ^ 45),
          items = [\<lparr>be_item_id = 1, be_name = ''Service call'', be_quantity = Fin 2,
                    be_unit_price = Fin (115 - 1 / 2 ^ 46),
                    be_markup_factor = Num (Fin (2589569785738035 / 2251799813685248)),
                    be_total_price = Fin (230 - 1 / 2 ^ 45)\<rparr>]\<rparr>"
  using calculatePricing_prices[of "[ex_line 1 2 None]" ex_db 0]
  by (simp add: calc_eval ex_nums line_ok_def entry_of_def)

text \<open>
  C3 as stated fails at its own example: the unit price is not 115 and the totals are not
  230. It fails for the tier string \<^verbatim>\<open>constructor\<close>, which is not in the table and yet does
  not map to 1.0: the factor is the inherited function, and the prices are \<^verbatim>\<open>NaN\<close>. And it
  fails for a line whose tier is the empty string: the line is priced with the item's tier,
  not with the factor 1.0 of an unrecognized string such as \<^verbatim>\<open>platinum\<close>.
\<close>

theorem calculatePricing_example_counterexample:
  "calculatePricing ex_db 0 [ex_line 1 2 None] =
     Inr \<lparr>total_amount = Fin (230 - 1 / 2 ^ 45),
          items = [\<lparr>be_item_id = 1, be_name = ''Service call'', be_quantity = Fin 2,
                    be_unit_price = Fin (115 - 1 / 2 ^ 46),
                    be_markup_factor = Num (Fin (2589569785738035 / 2251799813685248)),
                    be_total_price = Fin (230 - 1 / 2 ^ 45)\<rparr>]\<rparr> \<and>
   Fin (115 - 1 / 2 ^ 46) \<noteq> Fin 115 \<and> Fin (230 - 1 / 2 ^ 45) \<noteq> Fin 230 \<and>
   calculatePricing ex_db 0 [ex_line 1 2 (Some ''constructor'')] =
     Inr \<lparr>total_amount = NaN,
          items = [\<lparr>be_item_id = 1, be_name = ''Service call'', be_quantity = Fin 2,
                    be_unit_price = NaN, be_markup_factor = Inherited,
                    be_total_price = NaN\<rparr>]\<rparr> \<and>
   calculatePricing ex_db 0 [ex_line 1 2 (Some [])] =
     calculatePricing ex_db 0 [ex_line 1 2 (Some ''better'')] \<and>
   calculatePricing ex_db 0 [ex_line 1 2 (Some [])] \<noteq>
     calculatePricing ex_db 0 [ex_line 1 2 (Some ''platinum'')]"
  by (simp add: calc_eval ex_nums)

lemma calculate_loop_fails:
  assumes "l \<in> set lines" "line_item_id l = Some i" "i \<noteq> 0" "select_item d i = None"
  shows "\<exists>e. calculate_loop d now lines tot bd = Inl e"
  using assms
proof (induction lines arbitrary: tot bd)
  case Nil
  then show ?case by simp
next
  case (Cons x xs)
  show ?case
  proof (cases "x = l")
    case True
    with Cons.prems show ?thesis by (simp split: option.splits)
  next
    case False
    with Cons.prems have "l \<in> set xs" by simp
    from Cons.IH[OF this Cons.prems(2,3,4)] show ?thesis
      by (simp add: Let_def split: option.splits)
  qed
qed

lemma calculate_loop_status:
  "calculate_loop d now lines tot bd = Inl (status, msg) \<Longrightarrow>
   status = 400 \<or> status = 500 \<and> (\<exists>l \<in> set lines. \<exists>j. line_item_id l = Some j \<and> \<not> pg_integer j)"
proof (induction lines arbitrary: tot bd)
  case Nil
  then show ?case by simp
next
  case (Cons x xs)
  show ?case
  proof (cases "line_ok d x")
    case True
    then obtain j q it where x: "line_item_id x = Some j" "line_quantity x = Some q"
        "j \<noteq> 0" "select_item d j = Some it"
      by (auto simp: line_ok_def split: option.splits)
    from x(4) have "pg_integer j" by (rule select_item_range)
    with Cons.prems x have "calculate_loop d now xs
        (fadd tot (be_total_price (price_entry d now j it q (line_price_tier x))))
        (bd @ [price_entry d now j it q (line_price_tier x)]) = Inl (status, msg)"
      by (simp add: Let_def)
    from Cons.IH[OF this] show ?thesis by auto
  next
    case False
    with Cons.prems show ?thesis
      by (cases "line_item_id x"; cases "line_quantity x")
         (auto simp: line_ok_def split: if_splits option.splits)
  qed
qed

lemma calculate_loop_wf_message:
  "\<forall>l \<in> set lines. line_wf l \<Longrightarrow>
   calculate_loop d now lines tot bd = Inl (status, msg) \<Longrightarrow>
   status = 400 \<and>
   (\<exists>l \<in> set lines. \<exists>j. line_item_id l = Some j \<and> select_item d j = None \<and>
        msg = ''Pricebook item '' @ string_of_int j @ '' not found'')"
proof (induction lines arbitrary: tot bd)
  case Nil
  then show ?case by simp
next
  case (Cons x xs)
  from Cons.prems(1) obtain j q where x: "line_item_id x = Some j" "line_quantity x = Some q"
      "j \<noteq> 0" "pg_integer j"
    by (auto simp: line_wf_def split: option.splits)
  show ?case
  proof (cases "select_item d j")
    case None
    with Cons.prems(2) x show ?thesis by auto
  next
    case (Some it)
    with Cons.prems(2) x have "calculate_loop d now xs
        (fadd tot (be_total_price (price_entry d now j it q (line_price_tier x))))
        (bd @ [price_entry d now j it q (line_price_tier x)]) = Inl (status, msg)"
      by (simp add: Let_def)
    from Cons.IH[OF _ this] Cons.prems(1) show ?thesis by auto
  qed
qed

text \<open>
  C4, as the code has it. When some line names an item that does not exist (by an id other
  than 0, which counts as no id), the answer is an error and never a pricing result,
  whatever the other lines are. Its status is 400,
  unless the request holds an item id outside the range of the \<^verbatim>\<open>INTEGER\<close> column, whose
  query is rejected: then it can be 500. When every line has a quantity and an item id in
  that range, the status is 400 and the message is \<^verbatim>\<open>Pricebook item <id> not found\<close> for a
  missing item of the request.
\<close>

theorem calculatePricing_missing_item:
  assumes "l \<in> set lines" "line_item_id l = Some i" "i \<noteq> 0" "select_item d i = None"
  shows "\<exists>status msg. calculatePricing d now lines = Inl (status, msg) \<and>
         (status = 400 \<or>
          status = 500 \<and> (\<exists>l \<in> set lines. \<exists>j. line_item_id l = Some j \<and> \<not> pg_integer j)) \<and>
         ((\<forall>l \<in> set lines. line_wf l) \<longrightarrow>
            status = 400 \<and>
            (\<exists>l \<in> set lines. \<exists>j. line_item_id l = Some j \<and> select_item d j = None \<and>
                 msg = ''Pricebook item '' @ string_of_int j @ '' not found''))"
proof -
  from assms(1) have ne: "lines \<noteq> []" by auto
  from calculate_loop_fails[OF assms, of now "Fin 0" "[]"]
  obtain status msg where r: "calculate_loop d now lines (Fin 0) [] = Inl (status, msg)"
    by (metis surj_pair)
  have c: "calculatePricing d now lines = Inl (status, msg)"
    using ne r by (simp add: calculatePricing_def)
  show ?thesis
  proof (intro exI[of _ status] exI[of _ msg] conjI impI)
    show "calculatePricing d now lines = Inl (status, msg)" by (rule c)
    show "status = 400 \<or>
        status = 500 \<and> (\<exists>l \<in> set lines. \<exists>j. line_item_id l = Some j \<and> \<not> pg_integer j)"
      by (rule calculate_loop_status[OF r])
    assume "\<forall>l \<in> set lines. line_wf l"
    from calculate_loop_wf_message[OF this r]
    show "status = 400" and "\<exists>l \<in> set lines. \<exists>j. line_item_id l = Some j \<and> select_item d j = None \<and>
        msg = ''Pricebook item '' @ string_of_int j @ '' not found''"
      by simp_all
  qed
qed

text \<open>
  A request whose second line names the missing item 999, and one whose second line names
  an id that no \<^verbatim>\<open>INTEGER\<close> column holds.
\<close>

theorem calculatePricing_missing_item_witness:
  "ex_line 999 1 None \<in> set [ex_line 1 2 None, ex_line 999 1 None] \<and>
   line_item_id (ex_line 999 1 None) = Some 999 \<and> (999 :: int) \<noteq> 0 \<and>
   select_item ex_db 999 = None \<and>
   list_all line_wf [ex_line 1 2 None, ex_line 999 1 None] \<and>
   calculatePricing ex_db 0 [ex_line 1 2 None, ex_line 999 1 None] =
     Inl (400, ''Pricebook item 999 not found'') \<and>
   select_item ex_db 2147483648 = None \<and>
   calculatePricing ex_db 0 [ex_line 1 2 None, ex_line 2147483648 1 None] =
     Inl (500, ''Internal server error'')"
  using calculatePricing_missing_item[of "ex_line 999 1 None"
      "[ex_line 1 2 None, ex_line 999 1 None]" 999 ex_db 0]
  by (simp add: calc_eval ex_nums line_wf_def)

text \<open>
  C4 as stated fails: the answer for a missing item carries status 400, the status of the
  validation errors, and not the 404 that reports an absent job.
\<close>

theorem calculatePricing_missing_item_counterexample:
  "\<not> is_not_found (calculatePricing ex_db 0 [ex_line 1 2 None, ex_line 999 1 None]) \<and>
   is_not_found (estimateJob ex_db 7 [ex_line 1 2 None])"
  by (simp add: calc_eval ex_nums is_not_found_def estimateJob_def select_job_def)

section \<open>What the two pricing operations depend on\<close>







section \<open>Updating a job\<close>

lemma w_db_broadcast: "w_db (broadcast e w) = w_db w"
  by (simp add: broadcast_def Let_def split: option.splits)

lemma w_log_broadcast: "w_log (broadcast e w) = w_log w"
  by (simp add: broadcast_def Let_def split: option.splits)

lemma db_jobs_insert_history:
  "insert_history d now j c n = Some d' \<Longrightarrow> db_jobs d' = db_jobs d"
  by (auto simp: insert_history_def split: if_splits)

lemma db_jobs_record_history:
  "db_jobs (w_db (record_history fails now i p uj w)) = db_jobs (w_db w)"
  by (auto simp: record_history_def history_error_def draw_history_id_def
      db_jobs_insert_history split: option.splits)

lemma find_filter_hd:
  "find P xs = Some x \<Longrightarrow> \<exists>ys. filter P xs = x # ys"
  by (induction xs) (auto split: if_splits)

lemma find_map_other:
  "(\<And>x. P (f x) = P x) \<Longrightarrow> find P (map (\<lambda>x. if Q x then f x else x) xs) =
     map_option (\<lambda>x. if Q x then f x else x) (find P xs)"
  by (induction xs) auto

lemma job_id_apply_patch: "job_id (apply_patch now p j) = job_id j"
  by (simp add: apply_patch_def)

lemma select_job_Some:
  assumes "select_job d i = Some j"
  shows "pg_integer i" and "job_id j = i" and "j \<in> set (db_jobs d)"
  using assms by (auto simp: select_job_def find_Some_iff split: if_splits)

lemma select_job_find:
  "pg_integer i \<Longrightarrow> select_job d i = find (\<lambda>j. job_id j = i) (db_jobs d)"
  by (simp add: select_job_def)

lemma update_job_rows:
  assumes "update_job d now p i = Some (d', rows)" and "select_job d i = Some old"
  shows "\<exists>rest. rows = apply_patch now p old # rest"
    and "db_jobs d' = map (\<lambda>j. if job_id j = i then apply_patch now p j else j) (db_jobs d)"
    and "select_job d' i = Some (apply_patch now p old)"
    and "select_job d' k = (if k = i then Some (apply_patch now p old) else select_job d k)"
proof -
  from assms(2) obtain ys where ys: "filter (\<lambda>j. job_id j = i) (db_jobs d) = old # ys"
    using find_filter_hd[of "\<lambda>j. job_id j = i" "db_jobs d" old]
    by (auto simp: select_job_def split: if_splits)
  from assms(1) have rows: "rows = map (apply_patch now p) (filter (\<lambda>j. job_id j = i) (db_jobs d))"
    and d': "d' = d\<lparr>db_jobs := map (\<lambda>j. if job_id j = i then apply_patch now p j else j) (db_jobs d)\<rparr>"
    by (auto simp: update_job_def Let_def split: if_splits)
  show "\<exists>rest. rows = apply_patch now p old # rest" using rows ys by simp
  show "db_jobs d' = map (\<lambda>j. if job_id j = i then apply_patch now p j else j) (db_jobs d)"
    using d' by simp
  have sel_id: "select_job d k = Some j \<Longrightarrow> job_id j = k" for j k
    by (rule select_job_Some(2))
  have old_id: "job_id old = i"
    using assms(2) by (rule sel_id)
  have sel: "select_job d' k = map_option (\<lambda>j. if job_id j = i then apply_patch now p j else j) (select_job d k)" for k
    unfolding select_job_def d'
    by (simp add: find_map_other[where f = "apply_patch now p"] job_id_apply_patch)
  have selk: "select_job d' k = (if k = i then Some (apply_patch now p old) else select_job d k)" for k
  proof (cases "k = i")
    case True
    then show ?thesis using sel[of i] assms(2) old_id by simp
  next
    case False
    with sel_id[of k] show ?thesis using sel[of k] by (cases "select_job d k") auto
  qed
  show "select_job d' k = (if k = i then Some (apply_patch now p old) else select_job d k)"
    by (rule selk)
  show "select_job d' i = Some (apply_patch now p old)"
    using selk[of i] by simp
qed


lemma patched_coalesce:
  "patched f old (coalesce_nn (sql_param f) old)"
  "patched_opt g old' (coalesce (sql_param g) old')"
  by (auto simp: patched_def patched_opt_def coalesce_def coalesce_nn_def sql_param_def
      split: field.splits)

lemma apply_patch_patched:
  "patched (p_customer_id p) (job_customer_id old) (job_customer_id (apply_patch now p old))"
  "patched_opt (p_technician_id p) (job_technician_id old) (job_technician_id (apply_patch now p old))"
  "patched (p_status p) (job_status old) (job_status (apply_patch now p old))"
  "patched_opt (p_scheduled_time p) (job_scheduled_time old) (job_scheduled_time (apply_patch now p old))"
  "patched_opt (p_start_time p) (job_start_time old) (job_start_time (apply_patch now p old))"
  "patched_opt (p_end_time p) (job_end_time old) (job_end_time (apply_patch now p old))"
  "patched_opt (p_notes p) (job_notes old) (job_notes (apply_patch now p old))"
  "job_id (apply_patch now p old) = job_id old"
  "job_created_at (apply_patch now p old) = job_created_at old"
  "job_updated_at (apply_patch now p old) = now"
  by (simp_all add: apply_patch_def patched_coalesce)

lemma w_db_record_history_select_job:
  "select_job (w_db (record_history fails now i p uj w)) k = select_job (w_db w) k"
  by (simp add: select_job_def db_jobs_record_history)

lemma setJobStatus_found:
  assumes "\<not> fails SelectJob" and "select_job (w_db w) i = Some old"
  shows "setJobStatus fails now i p w =
      (if fails UpdateJob \<or> update_job (w_db w) now p i = None then internal_error w
       else let d' = fst (the (update_job (w_db w) now p i));
                w1 = w\<lparr>w_db := d'\<rparr>;
                w2 = (if p_status p = Val ''completed'' \<and> job_status old \<noteq> ''completed''
                      then record_history fails now i p (Some (apply_patch now p old)) w1 else w1)
            in (Inr (Some (apply_patch now p old)),
                broadcast (job_updated (Some (apply_patch now p old))) w2))"
proof (cases "fails UpdateJob \<or> update_job (w_db w) now p i = None")
  case True
  then show ?thesis using assms select_job_Some(1)[OF assms(2)] by (auto simp: setJobStatus_def)
next
  case False
  then obtain d' rows where u: "update_job (w_db w) now p i = Some (d', rows)" by auto
  from update_job_rows(1)[OF u assms(2)] obtain rest where
    "rows = apply_patch now p old # rest" by blast
  with False u assms select_job_Some(1)[OF assms(2)] show ?thesis
    by (simp add: setJobStatus_def Let_def)
qed

lemma apply_patch_row_ok_iff:
  assumes "job_row_ok d j"
  shows "job_row_ok d (apply_patch now p j) =
     ((case p_status p of Val s \<Rightarrow> s \<in> set valid_job_statuses | _ \<Rightarrow> True) \<and>
      (case p_customer_id p of Val c \<Rightarrow> c \<in> set (db_customers d) | _ \<Rightarrow> True) \<and>
      (case p_technician_id p of Val t \<Rightarrow> t \<in> set (db_users d) | _ \<Rightarrow> True))"
  using assms
  by (auto simp: job_row_ok_def apply_patch_def coalesce_def coalesce_nn_def sql_param_def
      split: field.splits option.splits)

lemma patch_fits_iff:
  "patch_fits d p =
     (patch_in_range p \<and>
      (case p_status p of Val s \<Rightarrow> s \<in> set valid_job_statuses | _ \<Rightarrow> True) \<and>
      (case p_customer_id p of Val c \<Rightarrow> c \<in> set (db_customers d) | _ \<Rightarrow> True) \<and>
      (case p_technician_id p of Val t \<Rightarrow> t \<in> set (db_users d) | _ \<Rightarrow> True))"
  by (auto simp: patch_fits_def patch_in_range_def split: field.splits)

lemma update_job_fits:
  assumes "jobs_ok d" and "select_job d i = Some old"
  shows "(update_job d now p i = None) = (\<not> patch_fits d p)"
proof -
  have all: "\<forall>j \<in> set (db_jobs d). job_row_ok d j"
    using assms(1) by (simp add: jobs_ok_def list_all_iff)
  note old = select_job_Some[OF assms(2)]
  have "list_all (job_row_ok d) (map (apply_patch now p) (filter (\<lambda>j. job_id j = i) (db_jobs d))) =
        job_row_ok d (apply_patch now p old)"
    using all old(2,3) by (auto simp: list_all_iff apply_patch_row_ok_iff)
  then show ?thesis
    using old(1,3) all
    by (simp add: update_job_def Let_def patch_fits_iff apply_patch_row_ok_iff)
qed

lemma w_db_respond: "w_db (snd (respond u w)) = w_db w" "fst (respond u w) = Finished (Inr u)"
  by (simp_all add: respond_def w_db_broadcast)

lemma step_update_found:
  assumes "select_job (w_db w) i = Some old" and "jobs_ok (w_db w)"
  shows "step fails now i p (AtUpdateJob prev) w =
      (if fails UpdateJob \<or> \<not> patch_fits (w_db w) p then failed w
       else if p_status p = Val ''completed'' \<and> prev \<noteq> ''completed''
            then (AtSelectHistory (Some (apply_patch now p old)),
                  w\<lparr>w_db := fst (the (update_job (w_db w) now p i))\<rparr>)
            else respond (Some (apply_patch now p old))
                   (w\<lparr>w_db := fst (the (update_job (w_db w) now p i))\<rparr>))"
proof (cases "fails UpdateJob \<or> \<not> patch_fits (w_db w) p")
  case True
  then show ?thesis using update_job_fits[OF assms(2,1), of now p] by auto
next
  case False
  then obtain d' rows where u: "update_job (w_db w) now p i = Some (d', rows)"
    using update_job_fits[OF assms(2,1), of now p] by auto
  from update_job_rows(1)[OF u assms(1)] obtain rest where
    "rows = apply_patch now p old # rest" by blast
  with False u show ?thesis by (simp add: Let_def)
qed

lemma step_update_absent:
  assumes "select_job (w_db w) i = None"
  shows "w_db (snd (step fails now i p (AtUpdateJob prev) w)) = w_db w"
proof (cases "fails UpdateJob \<or> update_job (w_db w) now p i = None")
  case True
  then show ?thesis by (auto simp: failed_def)
next
  case False
  then obtain d' rows where u: "update_job (w_db w) now p i = Some (d', rows)" by auto
  then have r: "pg_integer i"
    and d': "d' = (w_db w)\<lparr>db_jobs := map (\<lambda>j. if job_id j = i then apply_patch now p j else j)
                                       (db_jobs (w_db w))\<rparr>"
    by (auto simp: update_job_def Let_def split: if_splits)
  from assms r have "\<forall>j \<in> set (db_jobs (w_db w)). job_id j \<noteq> i"
    by (auto simp: select_job_def find_None_iff)
  then have "map (\<lambda>j. if job_id j = i then apply_patch now p j else j) (db_jobs (w_db w)) =
      db_jobs (w_db w)"
    by (induction "db_jobs (w_db w)") (auto simp: map_idI)
  then have "d' = w_db w" by (simp add: d')
  then show ?thesis using False u by (simp add: Let_def w_db_respond)
qed

lemma step_update_answer:
  "fst (step fails now i p (AtUpdateJob prev) w) \<noteq> Finished (Inl (404, ''Job not found''))"
  by (auto simp: failed_def respond_def Let_def split: option.splits)

text \<open>
  C7, as the code has it. Take a call whose first query is not rejected for a reason outside
  the data, and first let no other request come between its queries. When the id is outside
  the range of \<^verbatim>\<open>INTEGER\<close>, the answer is 500 and nothing changes but the console. When the
  id is in the range and the job does not exist, the answer is 404 and nothing changes. When
  the job exists, in a database whose jobs satisfy the constraints of their table: if the
  update is rejected for a reason outside the data, or the patch gives a status that is not
  one of the four, or a customer or a technician that is out of range or does not exist, the
  answer is 500 and nothing changes but the console; otherwise the answer is the job in
  which every column is the patch's value where the patch gives one and the previous value
  otherwise, the id and the creation time are kept, \<^verbatim>\<open>updated_at\<close> is the current time, and
  no other job changes. With other requests in between, the same holds of the \<^verbatim>\<open>UPDATE\<close>
  of the call and the job as it is stored when the \<^verbatim>\<open>UPDATE\<close> runs: the update is rejected
  on the same conditions and changes no job then, and otherwise it stores the patched job,
  which the call goes on with, and changes no other job. When the job is no longer stored as
  the \<^verbatim>\<open>UPDATE\<close> runs, the \<^verbatim>\<open>UPDATE\<close> changes nothing, and the answer is not the 404.
\<close>

theorem setJobStatus_patch:
  assumes "\<not> fails SelectJob"
  shows "(\<not> pg_integer i \<longrightarrow> setJobStatus fails now i p w = internal_error w) \<and>
         (pg_integer i \<and> select_job (w_db w) i = None \<longrightarrow>
            setJobStatus fails now i p w = (Inl (404, ''Job not found''), w)) \<and>
         (\<forall>old. select_job (w_db w) i = Some old \<and> jobs_ok (w_db w) \<longrightarrow>
            (if fails UpdateJob \<or> \<not> patch_fits (w_db w) p
             then setJobStatus fails now i p w = internal_error w
             else (case setJobStatus fails now i p w of
                     (Inr (Some new), w') \<Rightarrow>
                       new = apply_patch now p old \<and>
                       patched (p_customer_id p) (job_customer_id old) (job_customer_id new) \<and>
                       patched_opt (p_technician_id p) (job_technician_id old) (job_technician_id new) \<and>
                       patched (p_status p) (job_status old) (job_status new) \<and>
                       patched_opt (p_scheduled_time p) (job_scheduled_time old) (job_scheduled_time new) \<and>
                       patched_opt (p_start_time p) (job_start_time old) (job_start_time new) \<and>
                       patched_opt (p_end_time p) (job_end_time old) (job_end_time new) \<and>
                       patched_opt (p_notes p) (job_notes old) (job_notes new) \<and>
                       job_id new = job_id old \<and> job_created_at new = job_created_at old \<and>
                       job_updated_at new = now \<and>
                       (\<forall>k. select_job (w_db w') k =
                              (if k = i then Some new else select_job (w_db w) k))
                   | _ \<Rightarrow> False)) \<and>
            (case step fails now i p (AtUpdateJob prev) w of
               (t', w') \<Rightarrow>
                 if fails UpdateJob \<or> \<not> patch_fits (w_db w) p
                 then t' = Finished (Inl (500, ''Internal server error'')) \<and> w_db w' = w_db w
                 else (t' = AtSelectHistory (Some (apply_patch now p old)) \<or>
                       t' = Finished (Inr (Some (apply_patch now p old)))) \<and>
                      (\<forall>k. select_job (w_db w') k =
                             (if k = i then Some (apply_patch now p old)
                              else select_job (w_db w) k)))) \<and>
         (select_job (w_db w) i = None \<longrightarrow>
            w_db (snd (step fails now i p (AtUpdateJob prev) w)) = w_db w) \<and>
         fst (step fails now i p (AtUpdateJob prev) w) \<noteq> Finished (Inl (404, ''Job not found''))"
proof (intro conjI impI allI; (elim conjE)?)
  assume "\<not> pg_integer i"
  then show "setJobStatus fails now i p w = internal_error w"
    by (simp add: setJobStatus_def)
next
  assume "pg_integer i" "select_job (w_db w) i = None"
  with assms show "setJobStatus fails now i p w = (Inl (404, ''Job not found''), w)"
    by (simp add: setJobStatus_def)
next
  fix old assume old: "select_job (w_db w) i = Some old" and ok: "jobs_ok (w_db w)"
  note sf = setJobStatus_found[where fails = fails and now = now and p = p, OF assms old]
  note fits = update_job_fits[OF ok old, of now p]
  show "if fails UpdateJob \<or> \<not> patch_fits (w_db w) p
        then setJobStatus fails now i p w = internal_error w
        else (case setJobStatus fails now i p w of
                (Inr (Some new), w') \<Rightarrow>
                  new = apply_patch now p old \<and>
                  patched (p_customer_id p) (job_customer_id old) (job_customer_id new) \<and>
                  patched_opt (p_technician_id p) (job_technician_id old) (job_technician_id new) \<and>
                  patched (p_status p) (job_status old) (job_status new) \<and>
                  patched_opt (p_scheduled_time p) (job_scheduled_time old) (job_scheduled_time new) \<and>
                  patched_opt (p_start_time p) (job_start_time old) (job_start_time new) \<and>
                  patched_opt (p_end_time p) (job_end_time old) (job_end_time new) \<and>
                  patched_opt (p_notes p) (job_notes old) (job_notes new) \<and>
                  job_id new = job_id old \<and> job_created_at new = job_created_at old \<and>
                  job_updated_at new = now \<and>
                  (\<forall>k. select_job (w_db w') k =
                         (if k = i then Some new else select_job (w_db w) k))
              | _ \<Rightarrow> False)"
  proof (cases "fails UpdateJob \<or> \<not> patch_fits (w_db w) p")
    case True
    then show ?thesis using fits by (auto simp: sf)
  next
    case False
    then obtain d' rows where u: "update_job (w_db w) now p i = Some (d', rows)"
      using fits by auto
    have sel: "select_job d' k = (if k = i then Some (apply_patch now p old) else select_job (w_db w) k)" for k
      by (rule update_job_rows(4)[OF u old])
    show ?thesis using False u
      by (simp add: sf Let_def apply_patch_patched w_db_broadcast
          w_db_record_history_select_job sel)
  qed
  note su = step_update_found[where fails = fails and now = now and p = p and prev = prev,
      OF old ok]
  show "case step fails now i p (AtUpdateJob prev) w of
          (t', w') \<Rightarrow>
            if fails UpdateJob \<or> \<not> patch_fits (w_db w) p
            then t' = Finished (Inl (500, ''Internal server error'')) \<and> w_db w' = w_db w
            else (t' = AtSelectHistory (Some (apply_patch now p old)) \<or>
                  t' = Finished (Inr (Some (apply_patch now p old)))) \<and>
                 (\<forall>k. select_job (w_db w') k =
                        (if k = i then Some (apply_patch now p old)
                         else select_job (w_db w) k))"
  proof (cases "fails UpdateJob \<or> \<not> patch_fits (w_db w) p")
    case True
    then show ?thesis unfolding su by (auto simp: failed_def)
  next
    case False
    then obtain d' rows where u: "update_job (w_db w) now p i = Some (d', rows)"
      using fits by auto
    have sel: "select_job d' k = (if k = i then Some (apply_patch now p old) else select_job (w_db w) k)" for k
      by (rule update_job_rows(4)[OF u old])
    show ?thesis using False u unfolding su
      by (simp add: respond_def w_db_broadcast sel)
  qed
next
  assume "select_job (w_db w) i = None"
  then show "w_db (snd (step fails now i p (AtUpdateJob prev) w)) = w_db w"
    by (rule step_update_absent)
next
  show "fst (step fails now i p (AtUpdateJob prev) w) \<noteq> Finished (Inl (404, ''Job not found''))"
    by (rule step_update_answer)
qed

lemma sql_param_omit:
  "sql_param (case f of Null \<Rightarrow> Absent | g \<Rightarrow> g) = sql_param f"
  by (cases f) (simp_all add: sql_param_def)

lemma apply_patch_omit_nulls: "apply_patch now (omit_nulls p) = apply_patch now p"
  by (rule ext) (simp add: apply_patch_def omit_nulls_def sql_param_omit)

lemma patch_in_range_omit_nulls: "patch_in_range (omit_nulls p) = patch_in_range p"
  by (simp add: patch_in_range_def omit_nulls_def split: field.splits)

lemma update_job_omit_nulls: "update_job d now (omit_nulls p) i = update_job d now p i"
  by (simp add: update_job_def apply_patch_omit_nulls patch_in_range_omit_nulls cong: if_cong)

lemma status_omit_nulls: "(p_status (omit_nulls p) = Val s) = (p_status p = Val s)"
  by (cases "p_status p") (simp_all add: omit_nulls_def)

lemma notes_omit_nulls: "field_or_null (p_notes (omit_nulls p)) = field_or_null (p_notes p)"
  by (cases "p_notes p") (simp_all add: omit_nulls_def field_or_null_def)

lemma record_history_omit_nulls:
  "record_history fails now i (omit_nulls p) uj w = record_history fails now i p uj w"
  by (simp add: record_history_def notes_omit_nulls cong: if_cong option.case_cong)

lemma coalesce_keeps: "col \<noteq> None \<Longrightarrow> coalesce param col \<noteq> None"
  by (simp add: coalesce_def split: option.splits)

text \<open>
  C10. A patch and the same patch with its \<^verbatim>\<open>null\<close> fields left out give the same answer and
  the same effects; and a nullable column that held a value before a successful call holds
  one after it.
\<close>

theorem setJobStatus_null_is_omitted:
  "setJobStatus fails now i (omit_nulls p) w = setJobStatus fails now i p w \<and>
   (\<forall>old new w'. select_job (w_db w) i = Some old \<and>
        setJobStatus fails now i p w = (Inr (Some new), w') \<longrightarrow>
        (job_technician_id old \<noteq> None \<longrightarrow> job_technician_id new \<noteq> None) \<and>
        (job_scheduled_time old \<noteq> None \<longrightarrow> job_scheduled_time new \<noteq> None) \<and>
        (job_start_time old \<noteq> None \<longrightarrow> job_start_time new \<noteq> None) \<and>
        (job_end_time old \<noteq> None \<longrightarrow> job_end_time new \<noteq> None) \<and>
        (job_notes old \<noteq> None \<longrightarrow> job_notes new \<noteq> None))"
proof (intro conjI allI impI; (elim conjE)?)
  show "setJobStatus fails now i (omit_nulls p) w = setJobStatus fails now i p w"
    by (simp add: setJobStatus_def update_job_omit_nulls status_omit_nulls
        record_history_omit_nulls cong: if_cong option.case_cong)
next
  fix old new w'
  assume old: "select_job (w_db w) i = Some old"
    and r: "setJobStatus fails now i p w = (Inr (Some new), w')"
  have nf: "\<not> fails SelectJob"
    using r by (auto simp: setJobStatus_def internal_error_def)
  from r setJobStatus_found[where fails = fails and now = now and p = p, OF nf old]
  have new: "new = apply_patch now p old"
    by (auto simp: internal_error_def Let_def split: if_splits)
  { assume "job_technician_id old \<noteq> None"
    then show "job_technician_id new \<noteq> None"
      by (simp add: new apply_patch_def coalesce_keeps) }
  { assume "job_scheduled_time old \<noteq> None"
    then show "job_scheduled_time new \<noteq> None"
      by (simp add: new apply_patch_def coalesce_keeps) }
  { assume "job_start_time old \<noteq> None"
    then show "job_start_time new \<noteq> None"
      by (simp add: new apply_patch_def coalesce_keeps) }
  { assume "job_end_time old \<noteq> None"
    then show "job_end_time new \<noteq> None"
      by (simp add: new apply_patch_def coalesce_keeps) }
  { assume "job_notes old \<noteq> None"
    then show "job_notes new \<noteq> None"
      by (simp add: new apply_patch_def coalesce_keeps) }
qed

lemmas job_eval = setJobStatus_def select_job_def update_job_def apply_patch_def job_row_ok_def
  pg_integer_def patch_in_range_def draw_history_id_def jobs_ok_def patch_fits_def
  valid_job_statuses_def coalesce_def coalesce_nn_def sql_param_def record_history_def
  select_history_def insert_history_def field_or_null_def broadcast_def stringify_def
  job_updated_def internal_error_def history_error_def no_faults_def
  ex_world_def job_db_def ex_job_def ex_db_def ex_item_def empty_patch_def complete_patch_def
  reopen_patch_def Let_def

text \<open>
  Job 7 of the example with a start time; job 8, which does not exist; the id 2147483648;
  job 7 with a customer that does not exist; and the update of job 7 after another request
  has deleted the job.
\<close>

theorem setJobStatus_patch_witness:
  "\<not> no_faults SelectJob \<and> \<not> no_faults UpdateJob \<and>
   \<not> pg_integer 2147483648 \<and>
   setJobStatus no_faults 1 2147483648 (empty_patch\<lparr>p_start_time := Val 1\<rparr>) ex_world =
     (Inl (500, ''Internal server error''), ex_world\<lparr>w_log := [''error'']\<rparr>) \<and>
   pg_integer 8 \<and> select_job (w_db ex_world) 8 = None \<and>
   setJobStatus no_faults 1 8 (empty_patch\<lparr>p_start_time := Val 1\<rparr>) ex_world =
     (Inl (404, ''Job not found''), ex_world) \<and>
   select_job (w_db ex_world) 7 = Some ex_job \<and> jobs_ok (w_db ex_world) \<and>
   patch_fits (w_db ex_world) (empty_patch\<lparr>p_start_time := Val 1\<rparr>) \<and>
   fst (setJobStatus no_faults 1 7 (empty_patch\<lparr>p_start_time := Val 1\<rparr>) ex_world) =
     Inr (Some (ex_job\<lparr>job_start_time := Some 1, job_updated_at := 1\<rparr>)) \<and>
   db_jobs (w_db (snd (setJobStatus no_faults 1 7 (empty_patch\<lparr>p_start_time := Val 1\<rparr>) ex_world))) =
     [ex_job\<lparr>job_start_time := Some 1, job_updated_at := 1\<rparr>] \<and>
   fst (step no_faults 1 7 (empty_patch\<lparr>p_start_time := Val 1\<rparr>) (AtUpdateJob ''scheduled'')
          ex_world) =
     Finished (Inr (Some (ex_job\<lparr>job_start_time := Some 1, job_updated_at := 1\<rparr>))) \<and>
   \<not> patch_fits (w_db ex_world) (empty_patch\<lparr>p_customer_id := Val 2\<rparr>) \<and>
   setJobStatus no_faults 1 7 (empty_patch\<lparr>p_customer_id := Val 2\<rparr>) ex_world =
     (Inl (500, ''Internal server error''), ex_world\<lparr>w_log := [''error'']\<rparr>) \<and>
   select_job (w_db (snd (deleteJob no_faults 7 ex_world))) 7 = None \<and>
   step no_faults 1 7 (empty_patch\<lparr>p_start_time := Val 1\<rparr>) (AtUpdateJob ''scheduled'')
       (snd (deleteJob no_faults 7 ex_world)) =
     respond None (snd (deleteJob no_faults 7 ex_world))"
  using setJobStatus_patch[of no_faults 2147483648 1 "empty_patch\<lparr>p_start_time := Val 1\<rparr>" ex_world
      "''scheduled''"]
    setJobStatus_patch[of no_faults 8 1 "empty_patch\<lparr>p_start_time := Val 1\<rparr>" ex_world
      "''scheduled''"]
    setJobStatus_patch[of no_faults 7 1 "empty_patch\<lparr>p_start_time := Val 1\<rparr>" ex_world
      "''scheduled''"]
    setJobStatus_patch[of no_faults 7 1 "empty_patch\<lparr>p_customer_id := Val 2\<rparr>" ex_world
      "''scheduled''"]
    setJobStatus_patch[of no_faults 7 1 "empty_patch\<lparr>p_start_time := Val 1\<rparr>"
      "snd (deleteJob no_faults 7 ex_world)" "''scheduled''"]
  by (simp add: job_eval deleteJob_def respond_def)

text \<open>
  C7 as stated fails. No job has the id 2147483648, and the call for it is answered with
  500, not with 404: the query is rejected for its parameter. And job 7 exists, and a patch
  that gives it new notes and a customer that does not exist is not applied: the answer is
  500 and the notes stay.
\<close>

theorem setJobStatus_patch_counterexample:
  "select_job (w_db ex_world) 2147483648 = None \<and>
   setJobStatus no_faults 1 2147483648 empty_patch ex_world =
     (Inl (500, ''Internal server error''), ex_world\<lparr>w_log := [''error'']\<rparr>) \<and>
   \<not> is_not_found (fst (setJobStatus no_faults 1 2147483648 empty_patch ex_world)) \<and>
   select_job (w_db ex_world) 7 = Some ex_job \<and>
   setJobStatus no_faults 1 7
       (empty_patch\<lparr>p_customer_id := Val 2, p_notes := Val ''Second visit''\<rparr>) ex_world =
     (Inl (500, ''Internal server error''), ex_world\<lparr>w_log := [''error'']\<rparr>)"
  by (simp add: job_eval is_not_found_def)

theorem setJobStatus_null_is_omitted_witness:
  "select_job (w_db ex_world) 7 = Some ex_job \<and> job_notes ex_job \<noteq> None \<and>
   omit_nulls (empty_patch\<lparr>p_notes := Null\<rparr>) = empty_patch \<and>
   setJobStatus no_faults 1 7 (empty_patch\<lparr>p_notes := Null\<rparr>) ex_world =
     setJobStatus no_faults 1 7 empty_patch ex_world \<and>
   fst (setJobStatus no_faults 1 7 (empty_patch\<lparr>p_notes := Null\<rparr>) ex_world) =
     Inr (Some (ex_job\<lparr>job_updated_at := 1\<rparr>))"
  using setJobStatus_null_is_omitted[of no_faults 1 7 "empty_patch\<lparr>p_notes := Null\<rparr>" ex_world]
  by (simp add: job_eval omit_nulls_def)

section \<open>The completion record\<close>

lemma update_job_keeps:
  assumes "update_job d now p i = Some (d', rows)"
  shows "db_history d' = db_history d" "db_customers d' = db_customers d"
    "db_history_seq d' = db_history_seq d"
  using assms by (auto simp: update_job_def Let_def split: if_splits)

lemma select_history_update_job:
  "update_job d now p i = Some (d', rows) \<Longrightarrow> select_history d' j = select_history d j"
  by (simp add: select_history_def update_job_keeps)


text \<open>
  C6. A call that moves an existing job into \<^verbatim>\<open>completed\<close>, and whose update succeeds, answers
  with the updated job also when the history check is rejected, or when no record exists and
  the insert is rejected: the failure adds one line to the console, no history record is
  written, the job update stays, and the \<^verbatim>\<open>job.updated\<close> event is still sent.
\<close>

theorem setJobStatus_history_failure_swallowed:
  assumes "\<not> fails SelectJob" and "\<not> fails UpdateJob"
    and "select_job (w_db w) i = Some old" and "job_status old \<noteq> ''completed''"
    and "p_status p = Val ''completed''"
    and "update_job (w_db w) now p i = Some (d', rows)"
    and "fails SelectHistory \<or> (select_history (w_db w) i = [] \<and> fails InsertHistory)"
  shows "setJobStatus fails now i p w =
           (Inr (Some (apply_patch now p old)),
            broadcast (job_updated (Some (apply_patch now p old)))
              (w\<lparr>w_db := d', w_log := w_log w @ [''Failed to record service history:'']\<rparr>)) \<and>
         db_history d' = db_history (w_db w)"
proof -
  have "record_history fails now i p (Some (apply_patch now p old)) (w\<lparr>w_db := d'\<rparr>) =
        w\<lparr>w_db := d', w_log := w_log w @ [''Failed to record service history:'']\<rparr>"
    using assms(7) select_history_update_job[OF assms(6), of i]
    by (auto simp: record_history_def history_error_def)
  then show ?thesis
    using assms setJobStatus_found[where fails = fails and now = now and p = p, OF assms(1,3)]
      update_job_keeps(1)[OF assms(6)]
    by (simp add: Let_def)
qed





theorem setJobStatus_history_failure_swallowed_witness:
  "\<not> insert_fails SelectJob \<and> \<not> insert_fails UpdateJob \<and>
   select_job (w_db ex_world) 7 = Some ex_job \<and> job_status ex_job \<noteq> ''completed'' \<and>
   p_status complete_patch = Val ''completed'' \<and>
   update_job (w_db ex_world) 1 complete_patch 7 =
     Some (job_db\<lparr>db_jobs := [ex_job\<lparr>job_status := ''completed'', job_updated_at := 1\<rparr>]\<rparr>,
           [ex_job\<lparr>job_status := ''completed'', job_updated_at := 1\<rparr>]) \<and>
   select_history (w_db ex_world) 7 = [] \<and> insert_fails InsertHistory \<and>
   fst (setJobStatus insert_fails 1 7 complete_patch ex_world) =
     Inr (Some (ex_job\<lparr>job_status := ''completed'', job_updated_at := 1\<rparr>)) \<and>
   w_log (snd (setJobStatus insert_fails 1 7 complete_patch ex_world)) =
     [''Failed to record service history:''] \<and>
   db_history (w_db (snd (setJobStatus insert_fails 1 7 complete_patch ex_world))) = []"
  using setJobStatus_history_failure_swallowed[of insert_fails ex_world 7 ex_job complete_patch 1
      "job_db\<lparr>db_jobs := [ex_job\<lparr>job_status := ''completed'', job_updated_at := 1\<rparr>]\<rparr>"
      "[ex_job\<lparr>job_status := ''completed'', job_updated_at := 1\<rparr>]"]
  by (simp add: job_eval insert_fails_def)



section \<open>Events\<close>

lemma delivered_same_clients:
  "w_wss w' = w_wss w \<Longrightarrow> delivered w w' = []"
proof -
  have "concat (map (\<lambda>(c, c'). drop (length (cl_received c)) (cl_received c')) (zip cs cs)) = []"
    for cs :: "client list"
    by (induction cs) auto
  then show "w_wss w' = w_wss w \<Longrightarrow> delivered w w' = []"
    by (auto simp: delivered_def split: option.splits)
qed

lemma delivered_broadcast:
  assumes "w_wss w2 = w_wss w" and "P (stringify e)"
  shows "list_all P (delivered w (broadcast e w2))"
proof -
  have "list_all P (concat (map (\<lambda>(c, c'). drop (length (cl_received c)) (cl_received c'))
      (zip cs (map (\<lambda>c. if cl_open c then c\<lparr>cl_received := cl_received c @ [stringify e]\<rparr> else c) cs))))"
    for cs :: "client list"
    using assms(2) by (induction cs) auto
  then show ?thesis
    using assms(1) delivered_same_clients[of w2 w]
    by (auto simp: delivered_def broadcast_def Let_def split: option.splits)
qed

lemma w_wss_record_history: "w_wss (record_history fails now i p uj w) = w_wss w"
  by (auto simp: record_history_def history_error_def split: option.splits)

lemma domain_event_simps:
  "domain_event (stringify [(''type'', EStr ''job.created''), (''job'', EJob j)])"
  "domain_event (stringify [(''type'', EStr ''job.updated''), (''job'', EJob j)])"
  "domain_event (stringify [(''type'', EStr ''invoice.created''), (''invoice'', EInvoice v)])"
  "domain_event (stringify [(''type'', EStr ''payment.created''), (''payment'', EPayment q)])"
  by (simp_all add: domain_event_def stringify_def)

lemma delivered_internal_error: "delivered w (snd (internal_error w)) = []"
  by (simp add: internal_error_def delivered_same_clients)

lemma delivered_internal_error_db:
  "delivered w (snd (internal_error (w\<lparr>w_db := d\<rparr>))) = []"
  by (simp add: internal_error_def delivered_same_clients)

lemma delivered_setJobStatus:
  "list_all domain_event (delivered w (snd (setJobStatus fails now i p w)))"
proof (cases "fails SelectJob \<or> select_job (w_db w) i = None")
  case True
  then show ?thesis
    by (auto simp: setJobStatus_def delivered_internal_error delivered_same_clients)
next
  case False
  then obtain old where nf: "\<not> fails SelectJob" and old: "select_job (w_db w) i = Some old"
    by auto
  show ?thesis
    unfolding setJobStatus_found[where fails = fails and now = now and p = p, OF nf old]
    by (auto simp: delivered_internal_error Let_def job_updated_def w_wss_record_history
        intro!: delivered_broadcast domain_event_simps)
qed

lemma delivered_failed: "delivered w (snd (failed w)) = []"
  by (simp add: failed_def delivered_same_clients)

lemma delivered_respond:
  assumes "w_wss w2 = w_wss w"
  shows "list_all (\<lambda>m. if u \<noteq> None then domain_event m else m = job_updated_bare)
           (delivered w (snd (respond u w2)))"
  unfolding respond_def snd_conv
  by (rule delivered_broadcast[OF assms])
     (cases u; simp add: job_updated_def job_updated_bare_def stringify_def domain_event_def)

lemma update_job_no_row:
  assumes "update_job d now p i = Some (d', rows)"
  shows "(rows = []) = (select_job d i = None)"
proof -
  from assms have "pg_integer i"
    and "rows = map (apply_patch now p) (filter (\<lambda>j. job_id j = i) (db_jobs d))"
    by (auto simp: update_job_def Let_def split: if_splits)
  then show ?thesis
    by (auto simp: select_job_def find_None_iff filter_empty_conv)
qed

lemma w_wss_update: "w_wss (w\<lparr>w_db := d\<rparr>) = w_wss w"
  by simp

lemma delivered_step:
  "list_all (\<lambda>m. if carries_job (w_db w) i t then domain_event m else m = job_updated_bare)
     (delivered w (snd (step fails now i p t w)))"
proof (cases t)
  case AtSelectJob
  then show ?thesis
    by (auto simp: delivered_failed delivered_same_clients split: option.splits)
next
  case (AtUpdateJob prev)
  show ?thesis
  proof (cases "fails UpdateJob \<or> update_job (w_db w) now p i = None")
    case True
    then show ?thesis unfolding AtUpdateJob by (auto simp: delivered_failed)
  next
    case False
    then obtain d' rows where u: "update_job (w_db w) now p i = Some (d', rows)" by auto
    show ?thesis
    proof (cases rows)
      case Nil
      with update_job_no_row[OF u] have "select_job (w_db w) i = None" by simp
      then show ?thesis
        using False u Nil delivered_respond[of "w\<lparr>w_db := d'\<rparr>" w None]
        unfolding AtUpdateJob
        by (simp add: Let_def delivered_same_clients)
    next
      case (Cons r rest)
      with update_job_no_row[OF u] obtain old where "select_job (w_db w) i = Some old" by auto
      then show ?thesis
        using False u Cons delivered_respond[of "w\<lparr>w_db := d'\<rparr>" w "Some r"]
        unfolding AtUpdateJob
        by (simp add: Let_def delivered_same_clients)
    qed
  qed
next
  case (AtSelectHistory u)
  show ?thesis
    using delivered_respond[of "history_error w" w u] delivered_respond[of w w u]
    unfolding AtSelectHistory
    by (auto simp: history_error_def delivered_same_clients split: option.splits)
next
  case (AtInsertHistory uj)
  show ?thesis
    using delivered_respond[of "history_error (w\<lparr>w_db := draw_history_id (w_db w)\<rparr>)" w "Some uj"]
      delivered_respond[of "history_error w" w "Some uj"]
      delivered_respond[of "w\<lparr>w_db := d''\<rparr>" w "Some uj" for d'']
    unfolding AtInsertHistory
    by (auto simp: history_error_def split: option.splits)
next
  case (Finished r)
  then show ?thesis by (simp add: delivered_same_clients)
qed

lemma step_lost_job:
  assumes "fst (step fails now i p t w) = AtSelectHistory None"
  shows "(\<exists>prev. t = AtUpdateJob prev) \<and> select_job (w_db w) i = None"
proof (cases t)
  case (AtUpdateJob prev)
  show ?thesis
  proof (cases "fails UpdateJob \<or> update_job (w_db w) now p i = None")
    case True
    with assms show ?thesis unfolding AtUpdateJob
      by (cases "fails UpdateJob") (simp_all add: failed_def)
  next
    case False
    then obtain d' rows where u: "update_job (w_db w) now p i = Some (d', rows)" by auto
    with assms False have "rows = []"
      unfolding AtUpdateJob
      by (auto simp: Let_def respond_def split: if_splits list.splits)
    with update_job_no_row[OF u] show ?thesis by (simp add: AtUpdateJob)
  qed
qed (use assms in \<open>auto simp: failed_def respond_def split: option.splits if_splits\<close>)

lemma delivered_createJob:
  "list_all domain_event (delivered w (snd (createJob fails now b w)))"
  by (auto simp: createJob_def delivered_internal_error delivered_internal_error_db
      delivered_same_clients Let_def
      intro!: delivered_broadcast domain_event_simps)

lemma delivered_createJobInvoice:
  "list_all domain_event (delivered w (snd (createJobInvoice fails now i b w)))"
  by (auto simp: createJobInvoice_def delivered_internal_error delivered_internal_error_db
      delivered_same_clients Let_def
      split: option.splits intro!: delivered_broadcast domain_event_simps)

lemma delivered_createInvoice:
  "list_all domain_event (delivered w (snd (createInvoice fails now b w)))"
  by (auto simp: createInvoice_def delivered_internal_error delivered_internal_error_db
      delivered_same_clients Let_def
      split: option.splits intro!: delivered_broadcast domain_event_simps)

lemma delivered_createPayment:
  "list_all domain_event (delivered w (snd (createPayment fails now b w)))"
  by (auto simp: createPayment_def delivered_internal_error delivered_internal_error_db
      delivered_same_clients Let_def
      intro!: delivered_broadcast domain_event_simps)

text \<open>
  C9, as the code has it. Every message a client receives while a job, an invoice (by either
  route) or a payment is created, or while a job is updated with no other request between
  the queries of the update, is an object of two fields: \<^verbatim>\<open>type\<close>, one of \<^verbatim>\<open>job.created\<close>,
  \<^verbatim>\<open>job.updated\<close>, \<^verbatim>\<open>invoice.created\<close>, \<^verbatim>\<open>payment.created\<close>, and the entity under the key
  \<^verbatim>\<open>job\<close>, \<^verbatim>\<open>invoice\<close> or \<^verbatim>\<open>payment\<close> that matches the type. With other requests in between,
  the same holds of every message sent at any query of an update, with one exception: when
  the job is no longer stored as the \<^verbatim>\<open>UPDATE\<close> runs, which returns no row then, the message
  is \<^verbatim>\<open>job.updated\<close> with the type alone and no entity. A request is left without its job
  only in this way.
\<close>

theorem delivered_events_shape:
  "list_all domain_event (delivered w (snd (createJob fails now bj w))) \<and>
   list_all domain_event (delivered w (snd (createJobInvoice fails now i bi w))) \<and>
   list_all domain_event (delivered w (snd (createInvoice fails now bi w))) \<and>
   list_all domain_event (delivered w (snd (createPayment fails now bp w))) \<and>
   list_all domain_event (delivered w (snd (setJobStatus fails now i p w))) \<and>
   list_all (\<lambda>m. if carries_job (w_db w) i t then domain_event m else m = job_updated_bare)
     (delivered w (snd (step fails now i p t w))) \<and>
   (fst (step fails now i p t w) = AtSelectHistory None \<longrightarrow>
      (\<exists>prev. t = AtUpdateJob prev) \<and> select_job (w_db w) i = None)"
  using step_lost_job[of fails now i p t w]
  by (intro conjI impI delivered_createJob delivered_setJobStatus delivered_createJobInvoice
      delivered_createInvoice delivered_createPayment delivered_step) simp_all

text \<open>
  The update of job 7 of the example, alone; and the same update after another request has
  deleted the job between its two queries, with a patch that completes the job (the request
  goes on without its job) and with an empty patch (the request answers, and the message has
  no job).
\<close>

theorem delivered_events_shape_witness:
  "delivered ex_world (snd (setJobStatus no_faults 1 7 complete_patch ex_world)) =
     [[(''type'', EStr ''job.updated''),
       (''job'', EJob (ex_job\<lparr>job_status := ''completed'', job_updated_at := 1\<rparr>))]] \<and>
   list_all domain_event (delivered ex_world (snd (setJobStatus no_faults 1 7 complete_patch ex_world))) \<and>
   step no_faults 1 7 complete_patch AtSelectJob ex_world = (AtUpdateJob ''scheduled'', ex_world) \<and>
   fst (deleteJob no_faults 7 ex_world) = Inr () \<and>
   select_job (w_db (snd (deleteJob no_faults 7 ex_world))) 7 = None \<and>
   \<not> carries_job (w_db (snd (deleteJob no_faults 7 ex_world))) 7 (AtUpdateJob ''scheduled'') \<and>
   fst (step no_faults 2 7 complete_patch (AtUpdateJob ''scheduled'')
          (snd (deleteJob no_faults 7 ex_world))) = AtSelectHistory None \<and>
   delivered (snd (deleteJob no_faults 7 ex_world))
       (snd (step no_faults 2 7 empty_patch (AtUpdateJob ''scheduled'')
               (snd (deleteJob no_faults 7 ex_world)))) = [job_updated_bare] \<and>
   carries_job (w_db ex_world) 7 (AtUpdateJob ''scheduled'') \<and>
   delivered ex_world (snd (step no_faults 2 7 empty_patch (AtUpdateJob ''scheduled'') ex_world)) =
     [[(''type'', EStr ''job.updated''), (''job'', EJob (ex_job\<lparr>job_updated_at := 2\<rparr>))]]"
  using delivered_events_shape[where w = ex_world and fails = no_faults and now = 1 and i = 7
      and p = complete_patch and t = AtSelectJob]
    delivered_events_shape[where w = "snd (deleteJob no_faults 7 ex_world)" and fails = no_faults
      and now = 2 and i = 7 and p = complete_patch and t = "AtUpdateJob ''scheduled''"]
    delivered_events_shape[where w = "snd (deleteJob no_faults 7 ex_world)" and fails = no_faults
      and now = 2 and i = 7 and p = empty_patch and t = "AtUpdateJob ''scheduled''"]
    delivered_events_shape[where w = ex_world and fails = no_faults
      and now = 2 and i = 7 and p = empty_patch and t = "AtUpdateJob ''scheduled''"]
  by (simp add: job_eval delivered_def deleteJob_def respond_def job_updated_bare_def)

text \<open>
  C9 as stated fails: the event of a job update carries the job under the key \<^verbatim>\<open>job\<close>, and
  the event of a new invoice carries it under \<^verbatim>\<open>invoice\<close>; neither has a field \<^verbatim>\<open>payload\<close>.
  And the event of an update whose job another request deleted between its two queries has
  the type and nothing else.
\<close>

theorem delivered_events_shape_counterexample:
  "map (map fst) (delivered ex_world (snd (setJobStatus no_faults 1 7 complete_patch ex_world))) =
     [[''type'', ''job'']] \<and>
   \<not> list_all payload_event
       (delivered ex_world (snd (setJobStatus no_faults 1 7 complete_patch ex_world))) \<and>
   map (map fst) (delivered ex_world (snd (createJobInvoice no_faults 1 7
       \<lparr>ni_job_id = None, ni_amount = Some 230, ni_status = None, ni_due_at = None\<rparr> ex_world))) =
     [[''type'', ''invoice'']] \<and>
   step no_faults 1 7 empty_patch AtSelectJob ex_world = (AtUpdateJob ''scheduled'', ex_world) \<and>
   fst (deleteJob no_faults 7 ex_world) = Inr () \<and>
   step no_faults 2 7 empty_patch (AtUpdateJob ''scheduled'') (snd (deleteJob no_faults 7 ex_world)) =
     (Finished (Inr None),
      \<lparr>w_db = ex_db\<lparr>db_jobs_seq := 7\<rparr>, w_log = [],
       w_wss = Some [\<lparr>cl_open = True, cl_received = [[(''type'', EStr ''job.updated'')]]\<rparr>]\<rparr>)"
  by (simp add: job_eval delivered_def payload_event_def createJobInvoice_def insert_invoice_def
      valid_invoice_statuses_def str_or_lit_def deleteJob_def respond_def round_cents_def
      fits_numeric_12_2_def)
section \<open>Two completions of one job at once\<close>





















text \<open>A request run alone through its steps is the handler.\<close>

lemma run_alone_setJobStatus:
  "run_alone fails now i p w =
     (Finished (fst (setJobStatus fails now i p w)), snd (setJobStatus fails now i p w))"
  by (auto simp: run_alone_def setJobStatus_def internal_error_def failed_def respond_def
      record_history_def Let_def split: option.splits list.splits)




end
